theory Spec2Isabelle
  imports Complex_Main "HOL-Library.AList"
begin

section \<open>Values handed over by the XML parser\<close>

text \<open>
  Both converters receive the tree that xml2js builds (default options): an element
  without attributes and without child elements is a plain string (its text, \<open>''''\<close>
  when empty); any other element is an object whose key \<open>$\<close> holds the attributes (the
  key is absent when the element has none), whose key \<open>_\<close> holds the text (absent when
  there is none) and whose remaining keys map a child element name to the array of the
  children of that name, in document order.

  A \<open>char\<close> stands for one UTF-16 code unit below 256.
\<close>

datatype xnode =
    XStr string
  | XObj "(string \<times> string) list option" "string option" "(string \<times> xnode list) list"

text \<open>\<open>n.$\<close>: undefined on a string and on an object without attributes.\<close>

fun attr_bag :: "xnode \<Rightarrow> (string \<times> string) list option" where
  "attr_bag (XStr s) = None"
| "attr_bag (XObj a t cs) = a"

text \<open>\<open>n._\<close>\<close>

fun char_data :: "xnode \<Rightarrow> string option" where
  "char_data (XStr s) = None"
| "char_data (XObj a t cs) = t"

text \<open>\<open>n[name]\<close> for an element name: the array of children, or undefined.\<close>

fun child :: "xnode \<Rightarrow> string \<Rightarrow> xnode list option" where
  "child (XStr s) name = None"
| "child (XObj a t cs) name = map_of cs name"

text \<open>\<open>bag[key]\<close> on an attribute bag.\<close>

definition attr :: "(string \<times> string) list \<Rightarrow> string \<Rightarrow> string option" where
  "attr bag key = map_of bag key"

text \<open>JavaScript truthiness of a parser value and of an optional string.\<close>

fun truthy :: "xnode \<Rightarrow> bool" where
  "truthy (XStr s) = (s \<noteq> [])"
| "truthy (XObj a t cs) = True"

fun truthy_str :: "string option \<Rightarrow> bool" where
  "truthy_str None = False"
| "truthy_str (Some s) = (s \<noteq> [])"

text \<open>\<open>arr?.[0]\<close>\<close>

fun first_elem :: "'a list option \<Rightarrow> 'a option" where
  "first_elem None = None"
| "first_elem (Some []) = None"
| "first_elem (Some (x # xs)) = Some x"

text \<open>\<open>s || d\<close> on an optional string.\<close>

definition or_default :: "string option \<Rightarrow> string \<Rightarrow> string" where
  "or_default v d = (case v of None \<Rightarrow> d | Some s \<Rightarrow> if s = [] then d else s)"

section \<open>Numbers\<close>

text \<open>
  A JavaScript number is an IEEE 754 double: NaN, an infinity, or a finite value given
  here by the rational it denotes (the two zeros are not told apart; both serialise
  as \<open>0\<close>).
\<close>

datatype jsnum = NaN | PInf | NInf | Fin rat

text \<open>\<open>\<lfloor>log\<^sub>2 n\<rfloor>\<close> for \<open>n \<ge> 1\<close>.\<close>

function halvings :: "int \<Rightarrow> nat" where
  "halvings n = (if n < 2 then 0 else Suc (halvings (n div 2)))"
  by pat_completeness auto
termination
  by (relation "measure nat") auto

declare halvings.simps [simp del]

text \<open>The number of doublings that bring a positive rational to 1 or above, at most the fuel.\<close>

fun doublings :: "nat \<Rightarrow> rat \<Rightarrow> nat" where
  "doublings 0 a = 0"
| "doublings (Suc k) a = (if 1 \<le> a then 0 else Suc (doublings k (2 * a)))"

text \<open>
  The exponent of the unit in the last place of the double nearest to \<open>a > 0\<close>:
  the \<open>e\<close> with \<open>2^52 \<le> a / 2^e < 2^53\<close>, and \<open>-1074\<close> in the subnormal range.
\<close>

definition ulp_exp :: "rat \<Rightarrow> int" where
  "ulp_exp a =
     (if 1 \<le> a then int (halvings \<lfloor>a\<rfloor>) - 52
      else max (- int (doublings 1023 a) - 52) (- 1074))"

definition pow2 :: "int \<Rightarrow> rat" where
  "pow2 e = (if 0 \<le> e then 2 ^ nat e else 1 / 2 ^ nat (- e))"

text \<open>Round to the nearest integer, ties to even.\<close>

definition round_half_even :: "rat \<Rightarrow> int" where
  "round_half_even q =
     (let f = \<lfloor>q\<rfloor>; r = q - of_int f
      in if r < 1 / 2 then f else if 1 / 2 < r then f + 1 else if even f then f else f + 1)"

text \<open>The double nearest to a rational (round to nearest, ties to even; overflow to infinity).\<close>

definition to_double :: "rat \<Rightarrow> jsnum" where
  "to_double x =
     (if x = 0 then Fin 0
      else let a = \<bar>x\<bar>; e = ulp_exp a; v = of_int (round_half_even (a / pow2 e)) * pow2 e
           in if 2 ^ 1024 \<le> v then (if 0 < x then PInf else NInf)
              else Fin (if 0 < x then v else - v))"

text \<open>White space skipped by \<open>parseInt\<close> and \<open>parseFloat\<close> (code units below 256).\<close>

definition is_ws :: "char \<Rightarrow> bool" where
  "is_ws c = (of_char c \<in> {9, 10, 11, 12, 13, 32, 160 :: nat})"

definition is_digit :: "char \<Rightarrow> bool" where
  "is_digit c = (48 \<le> (of_char c :: nat) \<and> (of_char c :: nat) \<le> 57)"

definition digit_val :: "char \<Rightarrow> int" where
  "digit_val c = of_char c - 48"

definition digits_val :: "string \<Rightarrow> int" where
  "digits_val ds = foldl (\<lambda>n c. 10 * n + digit_val c) 0 ds"

text \<open>A leading sign: \<open>(negative, rest)\<close>.\<close>

fun take_sign :: "string \<Rightarrow> bool \<times> string" where
  "take_sign [] = (False, [])"
| "take_sign (c # cs) =
     (if c = CHR ''-'' then (True, cs) else if c = CHR ''+'' then (False, cs) else (False, c # cs))"

text \<open>\<open>parseInt(v, 10)\<close>; an undefined argument reads as the text \<open>undefined\<close>, which has no digits.\<close>

definition parseInt :: "string option \<Rightarrow> jsnum" where
  "parseInt v =
     (case v of
        None \<Rightarrow> NaN
      | Some s \<Rightarrow>
          (let (neg, rest) = take_sign (dropWhile is_ws s); ds = takeWhile is_digit rest
           in if ds = [] then NaN
              else to_double (if neg then - of_int (digits_val ds) else of_int (digits_val ds))))"

text \<open>\<open>x || 0\<close> on a number: NaN and zero are falsy.\<close>

fun or_zero :: "jsnum \<Rightarrow> jsnum" where
  "or_zero NaN = Fin 0"
| "or_zero x = x"

section \<open>Errors, the output schema, the written files\<close>

text \<open>
  A rejected conversion carries a JavaScript error value: an \<open>Error\<close> built by the
  converter or the parser, or a \<open>TypeError\<close> raised by the engine on a property read
  of \<open>null\<close> or \<open>undefined\<close> (the message text is V8's).
\<close>

datatype error = Error string | TypeError string

definition cannot_read :: "string \<Rightarrow> string \<Rightarrow> string" where
  "cannot_read base prop =
     ''Cannot read properties of '' @ base @ '' (reading '' @ [CHR 0x27] @ prop @ [CHR 0x27] @ '')''"

text \<open>
  What the XML parser hands to its callback: an error, or the parsed document. The
  document is an object with one key, the name of the root element; it is \<open>null\<close>
  (\<open>None\<close>) when the file holds white space only.
\<close>

datatype parse_outcome = ParseFailure string | Parsed "(string \<times> xnode) option"

datatype CtrfTestState = Passed | Failed | Skipped | Pending | Other

record CtrfTest =
  ctrf_name :: string
  ctrf_status :: CtrfTestState
  ctrf_duration :: jsnum
  ctrf_message :: "xnode option"
  ctrf_trace :: "xnode option"

record Summary =
  sum_tests :: jsnum
  sum_passed :: jsnum
  sum_failed :: jsnum
  sum_pending :: jsnum
  sum_skipped :: jsnum
  sum_other :: jsnum
  sum_start :: int
  sum_stop :: int

text \<open>
  An environment object: its keys in insertion order, each with a string or
  \<open>undefined\<close> (\<open>None\<close>). (JavaScript lists keys that are array indices first, in
  ascending order; the order of the keys plays no part below, only the lookup does.)
\<close>

type_synonym env_object = "(string \<times> string option) list"

record CtrfReport =
  tool_name :: string
  summary :: Summary
  report_tests :: "CtrfTest list"
  environment :: "env_object option"

text \<open>The files written so far: the JSON document stored under each output path.\<close>

type_synonym files = "string \<rightharpoonup> CtrfReport"

section \<open>Environment properties\<close>

text \<open>\<open>s.split("=")\<close>: every occurrence of the separator cuts.\<close>

fun split_on :: "char \<Rightarrow> string \<Rightarrow> string list" where
  "split_on sep [] = [[]]"
| "split_on sep (c # cs) =
     (if c = sep then [] # split_on sep cs
      else (case split_on sep cs of [] \<Rightarrow> [[c]] | p # ps \<Rightarrow> (c # p) # ps))"

text \<open>
  \<open>Object.fromEntries\<close>: each entry is an array, its element 0 the key and its
  element 1 the value (\<open>undefined\<close> when the array has one element); a later entry
  overwrites an earlier one of the same key.
\<close>

fun entry_key :: "string list \<Rightarrow> string" where
  "entry_key [] = ''undefined''"
| "entry_key (k # r) = k"

fun entry_value :: "string list \<Rightarrow> string option" where
  "entry_value (k # v # r) = Some v"
| "entry_value r = None"

definition fromEntries :: "string list list \<Rightarrow> env_object" where
  "fromEntries es = foldl (\<lambda>obj e. AList.update (entry_key e) (entry_value e) obj) [] es"

definition envPropsObj :: "string list option \<Rightarrow> env_object" where
  "envPropsObj envProps =
     (case envProps of None \<Rightarrow> [] | Some ps \<Rightarrow> fromEntries (map (split_on CHR ''='') ps))"

text \<open>
  The output path. \<open>path.resolve\<close> is left out: the files are keyed by the path as
  given, taken relative to the working directory.
\<close>

definition finalOutputPath :: "string option \<Rightarrow> string" where
  "finalOutputPath outputPath = or_default outputPath ''ctrf/ctrf-report.json''"

section \<open>The TestNG converter: mapper\<close>

record TestNGResults =
  res_total :: jsnum
  res_passed :: jsnum
  res_failed :: jsnum
  res_skipped :: jsnum
  res_ignored :: jsnum
  res_startTime :: int
  res_endTime :: int
  res_suiteName :: string

record TestNGTestCase =
  tn_name :: string
  tn_status :: string
  tn_duration :: jsnum
  tn_startTime :: int
  tn_endTime :: int
  tn_message :: "xnode option"
  tn_trace :: "xnode option"

text \<open>\<open>status === "failed" && v\<close>, kept only when truthy.\<close>

definition keep_if_failed :: "CtrfTestState \<Rightarrow> xnode option \<Rightarrow> xnode option" where
  "keep_if_failed st v =
     (case v of None \<Rightarrow> None | Some x \<Rightarrow> if st = Failed \<and> truthy x then Some x else None)"

definition convertToCTRFTest_testng :: "TestNGTestCase \<Rightarrow> CtrfTest" where
  "convertToCTRFTest_testng testCase =
     (let status =
            (if tn_status testCase = ''pass'' then Passed
             else if tn_status testCase = ''fail'' then Failed
             else if tn_status testCase = ''skip'' then Skipped
             else Other)
      in \<lparr> ctrf_name = tn_name testCase,
           ctrf_status = status,
           ctrf_duration = tn_duration testCase,
           ctrf_message = keep_if_failed status (tn_message testCase),
           ctrf_trace = keep_if_failed status (tn_trace testCase) \<rparr>)"

definition createCTRFReport_testng ::
  "TestNGTestCase list \<Rightarrow> TestNGResults \<Rightarrow> string option \<Rightarrow> env_object \<Rightarrow> CtrfReport" where
  "createCTRFReport_testng testCases results toolName envProps =
     \<lparr> tool_name = or_default toolName ''TestNG'',
       summary = \<lparr> sum_tests = res_total results,
                   sum_passed = res_passed results,
                   sum_failed = res_failed results,
                   sum_pending = Fin 0,
                   sum_skipped = res_skipped results,
                   sum_other = res_ignored results,
                   sum_start = res_startTime results,
                   sum_stop = res_endTime results \<rparr>,
       report_tests = map convertToCTRFTest_testng testCases,
       environment = Some envProps \<rparr>"

section \<open>The TestNG converter: extractor\<close>

text \<open>
  \<open>parseDate\<close>. The engine's \<open>new Date(s).getTime()\<close> is the parameter \<open>dp\<close>
  (\<open>None\<close> for an invalid date). An undefined argument is an invalid date, and the
  \<open>split\<close> that follows throws inside the \<open>try\<close>: the result is 0.
\<close>

definition parseDate :: "(string \<Rightarrow> int option) \<Rightarrow> string option \<Rightarrow> int" where
  "parseDate dp dateString =
     (case dateString of
        None \<Rightarrow> 0
      | Some s \<Rightarrow>
          (case dp s of
             Some t \<Rightarrow> t
           | None \<Rightarrow>
               (case dp (takeWhile (\<lambda>c. c \<noteq> CHR '' '') s) of Some t \<Rightarrow> t | None \<Rightarrow> 0)))"

text \<open>\<open>toLowerCase\<close> on code units below 256.\<close>

definition toLowerCase :: "string \<Rightarrow> string" where
  "toLowerCase s =
     map (\<lambda>c. let n = (of_char c :: nat)
              in if (65 \<le> n \<and> n \<le> 90) \<or> (192 \<le> n \<and> n \<le> 222 \<and> n \<noteq> 215)
                 then char_of (n + 32) else c) s"

text \<open>\<open>obj?.$?.[key]\<close>\<close>

definition opt_attr :: "xnode \<Rightarrow> string \<Rightarrow> string option" where
  "opt_attr n key = (case attr_bag n of None \<Rightarrow> None | Some bag \<Rightarrow> attr bag key)"

text \<open>
  The methods searched for \<open>beforeSuite\<close>: the two \<open>flatMap\<close>s over the tests and
  their classes.
\<close>

definition all_methods :: "xnode list \<Rightarrow> xnode list" where
  "all_methods tests =
     concat (map (\<lambda>classItem. case child classItem ''test-method'' of None \<Rightarrow> [] | Some ms \<Rightarrow> ms)
       (concat (map (\<lambda>test. case child test ''class'' of None \<Rightarrow> [] | Some cs \<Rightarrow> cs) tests)))"

definition is_beforeSuite :: "xnode \<Rightarrow> bool" where
  "is_beforeSuite method =
     (case attr_bag method of None \<Rightarrow> False | Some bag \<Rightarrow> attr bag ''name'' = Some ''beforeSuite'')"

definition suite_startedAt :: "xnode \<Rightarrow> string option" where
  "suite_startedAt suite =
     (case child suite ''test'' of
        None \<Rightarrow> opt_attr suite ''started-at''
      | Some ts \<Rightarrow>
          (case find is_beforeSuite (all_methods ts) of
             None \<Rightarrow> opt_attr suite ''started-at''
           | Some beforeSuiteMethod \<Rightarrow> opt_attr beforeSuiteMethod ''started-at''))"

text \<open>
  The body of the innermost \<open>forEach\<close>, with its \<open>try\<close>: a method without
  attributes or with \<open>is_config === "true"\<close> returns early; reading \<open>test.$.name\<close>
  on a test without attributes throws, the \<open>catch\<close> logs, and nothing is pushed.
\<close>

definition method_message :: "xnode \<Rightarrow> string \<Rightarrow> xnode option" where
  "method_message method key =
     (case first_elem (child method ''exception'') of
        None \<Rightarrow> None
      | Some ex \<Rightarrow>
          if truthy ex
          then (case first_elem (child ex key) of
                  None \<Rightarrow> None
                | Some m \<Rightarrow> if truthy m then Some m else None)
          else None)"

definition make_testCase ::
  "(string \<Rightarrow> int option) \<Rightarrow> (string \<times> string) list \<Rightarrow> xnode \<Rightarrow> (string \<times> string) list \<Rightarrow> TestNGTestCase" where
  "make_testCase dp test_bag method method_bag =
     \<lparr> tn_name = or_default (attr test_bag ''name'') ''Unknown Test'' @ '': ''
                 @ or_default (attr method_bag ''name'') ''Unknown Method'',
       tn_status = toLowerCase (or_default (attr method_bag ''status'') ''other''),
       tn_duration = or_zero (parseInt (attr method_bag ''duration-ms'')),
       tn_startTime = parseDate dp (attr method_bag ''started-at''),
       tn_endTime = parseDate dp (attr method_bag ''finished-at''),
       tn_message = method_message method ''message'',
       tn_trace = method_message method ''full-stacktrace'' \<rparr>"

definition process_method ::
  "(string \<Rightarrow> int option) \<Rightarrow> xnode \<Rightarrow> TestNGTestCase list \<Rightarrow> xnode \<Rightarrow> TestNGTestCase list" where
  "process_method dp test testCases method =
     (case attr_bag method of
        None \<Rightarrow> testCases
      | Some method_bag \<Rightarrow>
          if attr method_bag ''is_config'' = Some ''true'' then testCases
          else (case attr_bag test of
                  None \<Rightarrow> testCases
                | Some test_bag \<Rightarrow> testCases @ [make_testCase dp test_bag method method_bag]))"

definition process_class ::
  "(string \<Rightarrow> int option) \<Rightarrow> xnode \<Rightarrow> TestNGTestCase list \<Rightarrow> xnode \<Rightarrow> TestNGTestCase list" where
  "process_class dp test testCases classObj =
     (case child classObj ''test-method'' of
        None \<Rightarrow> testCases
      | Some methods \<Rightarrow> foldl (process_method dp test) testCases methods)"

definition process_test ::
  "(string \<Rightarrow> int option) \<Rightarrow> TestNGTestCase list \<Rightarrow> xnode \<Rightarrow> TestNGTestCase list" where
  "process_test dp testCases test =
     (case child test ''class'' of
        None \<Rightarrow> testCases
      | Some classes \<Rightarrow> foldl (process_class dp test) testCases classes)"

definition parseTestNGReport ::
  "(string \<Rightarrow> int option) \<Rightarrow> parse_outcome \<Rightarrow> error + (TestNGTestCase list \<times> TestNGResults)" where
  "parseTestNGReport dp outcome =
     (case outcome of
        ParseFailure m \<Rightarrow> Inl (Error (''Failed to parse TestNG XML: '' @ m))
      | Parsed None \<Rightarrow>
          Inl (Error (''Failed to parse TestNG report: '' @ cannot_read ''null'' ''testng-results''))
      | Parsed (Some (rootName, node)) \<Rightarrow>
          if rootName \<noteq> ''testng-results'' \<or> \<not> truthy node
          then Inl (Error ''Invalid TestNG report format: missing testng-results'')
          else (case first_elem (child node ''suite'') of
                  None \<Rightarrow> Inl (Error ''Invalid TestNG report format: missing suite'')
                | Some suite \<Rightarrow>
                    if \<not> truthy suite
                    then Inl (Error ''Invalid TestNG report format: missing suite'')
                    else (case attr_bag node of
                            None \<Rightarrow>
                              Inl (Error (''Failed to parse TestNG report: ''
                                          @ cannot_read ''undefined'' ''total''))
                          | Some bag \<Rightarrow>
                              Inr (foldl (process_test dp) []
                                     (case child suite ''test'' of None \<Rightarrow> [] | Some ts \<Rightarrow> ts),
                                   \<lparr> res_total = or_zero (parseInt (attr bag ''total'')),
                                     res_passed = or_zero (parseInt (attr bag ''passed'')),
                                     res_failed = or_zero (parseInt (attr bag ''failed'')),
                                     res_skipped = or_zero (parseInt (attr bag ''skipped'')),
                                     res_ignored = or_zero (parseInt (attr bag ''ignored'')),
                                     res_startTime = parseDate dp (suite_startedAt suite),
                                     res_endTime = parseDate dp (opt_attr suite ''finished-at''),
                                     res_suiteName = or_default (opt_attr suite ''name'') ''Unknown Suite'' \<rparr>))))"

text \<open>
  \<open>convertTestngToCTRF\<close>. \<open>ctrfReport_testng\<close> is the value of its variable
  \<open>ctrfReport\<close>, reached only when \<open>parseTestNGReport\<close> has resolved; the write
  comes after it, so a rejection leaves the files as they were.
\<close>

definition ctrfReport_testng ::
  "(string \<Rightarrow> int option) \<Rightarrow> parse_outcome \<Rightarrow> string option \<Rightarrow> string list option
     \<Rightarrow> error + CtrfReport" where
  "ctrfReport_testng dp outcome toolName envProps =
     (case parseTestNGReport dp outcome of
        Inl e \<Rightarrow> Inl e
      | Inr (testCases, results) \<Rightarrow>
          Inr (createCTRFReport_testng testCases results toolName (envPropsObj envProps)))"

definition convertTestngToCTRF ::
  "(string \<Rightarrow> int option) \<Rightarrow> parse_outcome \<Rightarrow> string option \<Rightarrow> string option \<Rightarrow> string list option
     \<Rightarrow> files \<Rightarrow> (error + unit) \<times> files" where
  "convertTestngToCTRF dp outcome outputPath toolName envProps fs =
     (case ctrfReport_testng dp outcome toolName envProps of
        Inl e \<Rightarrow> (Inl e, fs)
      | Inr ctrfReport \<Rightarrow> (Inr (), fs(finalOutputPath outputPath \<mapsto> ctrfReport)))"

section \<open>Decimal strings and rounding, as the JUnit mapper uses them\<close>

definition pow10 :: "int \<Rightarrow> rat" where
  "pow10 e = (if 0 \<le> e then 10 ^ nat e else 1 / 10 ^ nat (- e))"

text \<open>An exponent part \<open>e\<close>/\<open>E\<close>, optional sign, digits; without digits there is none.\<close>

definition exponent_part :: "string \<Rightarrow> int" where
  "exponent_part r =
     (case r of
        [] \<Rightarrow> 0
      | c # cs \<Rightarrow>
          if c = CHR ''e'' \<or> c = CHR ''E''
          then (let (neg, rest) = take_sign cs; ds = takeWhile is_digit rest
                in if ds = [] then 0 else if neg then - digits_val ds else digits_val ds)
          else 0)"

fun starts_with :: "string \<Rightarrow> string \<Rightarrow> bool" where
  "starts_with [] s = True"
| "starts_with (p # ps) [] = False"
| "starts_with (p # ps) (c # cs) = (p = c \<and> starts_with ps cs)"

text \<open>
  \<open>parseFloat\<close>: leading white space, a sign, then the longest prefix that is a decimal
  literal (\<open>Infinity\<close>, or digits with an optional fraction and exponent); NaN when
  there is none. The literal's value is rounded to the nearest double.
\<close>

definition parseFloat :: "string option \<Rightarrow> jsnum" where
  "parseFloat v =
     (case v of
        None \<Rightarrow> NaN
      | Some s \<Rightarrow>
          (let (neg, rest) = take_sign (dropWhile is_ws s)
           in if starts_with ''Infinity'' rest then (if neg then NInf else PInf)
              else
                (let ds1 = takeWhile is_digit rest;
                     r1 = dropWhile is_digit rest;
                     has_dot = starts_with ''.'' r1;
                     ds2 = (if has_dot then takeWhile is_digit (tl r1) else []);
                     r2 = (if has_dot then dropWhile is_digit (tl r1) else r1)
                 in if ds1 = [] \<and> ds2 = [] then NaN
                    else
                      (let m = of_int (digits_val (ds1 @ ds2)) / 10 ^ length ds2 * pow10 (exponent_part r2)
                       in to_double (if neg then - m else m)))))"

text \<open>\<open>x * 1000\<close> in double arithmetic.\<close>

fun times1000 :: "jsnum \<Rightarrow> jsnum" where
  "times1000 (Fin x) = to_double (x * 1000)"
| "times1000 x = x"

text \<open>\<open>Math.round\<close>: the integer nearest to \<open>x\<close>, the larger one on a tie.\<close>

fun Math_round :: "jsnum \<Rightarrow> jsnum" where
  "Math_round (Fin x) = Fin (of_int \<lfloor>x + 1 / 2\<rfloor>)"
| "Math_round x = x"

section \<open>The JUnit converter\<close>

record JUnitTestCase =
  ju_suite :: "string option"
  ju_classname :: "string option"
  ju_name :: "string option"
  ju_time :: "string option"
  ju_failure :: "string option"
  ju_error :: "string option"
  ju_skipped :: bool

text \<open>
  The text of a \<open>failure\<close> or \<open>error\<close> child: element 0 of the array; when that is
  truthy, the element itself if it is a string and its \<open>_\<close> otherwise.
\<close>

definition element_text :: "xnode list option \<Rightarrow> string option" where
  "element_text arr =
     (case first_elem arr of
        None \<Rightarrow> None
      | Some f \<Rightarrow> if truthy f then (case f of XStr s \<Rightarrow> Some s | XObj a t cs \<Rightarrow> char_data f) else None)"

text \<open>
  The body of the \<open>forEach\<close> over \<open>suite.testcase\<close>: destructuring \<open>testCase.$\<close>
  throws when the test case has no attributes.
\<close>

definition extract_testcase :: "string option \<Rightarrow> xnode \<Rightarrow> error + JUnitTestCase" where
  "extract_testcase suiteName testCase =
     (case attr_bag testCase of
        None \<Rightarrow>
          Inl (TypeError (''Cannot destructure property '' @ [CHR 0x27] @ ''classname'' @ [CHR 0x27]
                          @ '' of '' @ [CHR 0x27] @ ''testCase.$'' @ [CHR 0x27] @ '' as it is undefined.''))
      | Some bag \<Rightarrow>
          Inr \<lparr> ju_suite = suiteName,
                ju_classname = attr bag ''classname'',
                ju_name = attr bag ''name'',
                ju_time = attr bag ''time'',
                ju_failure = element_text (child testCase ''failure''),
                ju_error = element_text (child testCase ''error''),
                ju_skipped = (child testCase ''skipped'' \<noteq> None) \<rparr>)"

fun push_testcases ::
  "string option \<Rightarrow> xnode list \<Rightarrow> JUnitTestCase list \<Rightarrow> error + JUnitTestCase list" where
  "push_testcases suiteName [] testCases = Inr testCases"
| "push_testcases suiteName (testCase # rest) testCases =
     (case extract_testcase suiteName testCase of
        Inl e \<Rightarrow> Inl e
      | Inr c \<Rightarrow> push_testcases suiteName rest (testCases @ [c]))"

lemma size_child_lt:
  "child n name = Some cs \<Longrightarrow> size_list size cs < size n"
proof (cases n)
  case (XStr s)
  assume "child n name = Some cs"
  with XStr show ?thesis by simp
next
  case (XObj a t kids)
  assume c: "child n name = Some cs"
  have "map_of kids name = Some cs \<Longrightarrow>
          size_list size cs \<le> size_list (size_prod (\<lambda>_. 0) (size_list size)) kids"
    by (induction kids) (auto split: if_splits)
  with c XObj show ?thesis by simp
qed

function parseTestSuite ::
    "xnode \<Rightarrow> string option \<Rightarrow> JUnitTestCase list \<Rightarrow> error + JUnitTestCase list"
  and parseTestSuites ::
    "xnode list \<Rightarrow> string option \<Rightarrow> JUnitTestCase list \<Rightarrow> error + JUnitTestCase list" where
  "parseTestSuite suite suiteName testCases =
     (case (case child suite ''testcase'' of
              None \<Rightarrow> Inr testCases
            | Some tcs \<Rightarrow> push_testcases suiteName tcs testCases) of
        Inl e \<Rightarrow> Inl e
      | Inr testCases' \<Rightarrow>
          (case child suite ''testsuite'' of
             None \<Rightarrow> Inr testCases'
           | Some nested \<Rightarrow> parseTestSuites nested suiteName testCases'))"
| "parseTestSuites [] suiteName testCases = Inr testCases"
| "parseTestSuites (nestedSuite # rest) suiteName testCases =
     (case parseTestSuite nestedSuite suiteName testCases of
        Inl e \<Rightarrow> Inl e
      | Inr testCases' \<Rightarrow> parseTestSuites rest suiteName testCases')"
  by pat_completeness auto
termination
  by (relation "measure (\<lambda>x. case x of Inl (s, _, _) \<Rightarrow> 2 * size s
                                      | Inr (ss, _, _) \<Rightarrow> 2 * size_list size ss + 1)")
     (auto dest: size_child_lt)

text \<open>The \<open>forEach\<close> over the top-level suites: \<open>suite.$.name\<close> throws without attributes.\<close>

fun top_suites :: "xnode list \<Rightarrow> JUnitTestCase list \<Rightarrow> error + JUnitTestCase list" where
  "top_suites [] testCases = Inr testCases"
| "top_suites (suite # rest) testCases =
     (case attr_bag suite of
        None \<Rightarrow> Inl (TypeError (cannot_read ''undefined'' ''name''))
      | Some bag \<Rightarrow>
          (case parseTestSuite suite (attr bag ''name'') testCases of
             Inl e \<Rightarrow> Inl e
           | Inr testCases' \<Rightarrow> top_suites rest testCases'))"

definition parseJUnitReport :: "parse_outcome \<Rightarrow> error + JUnitTestCase list" where
  "parseJUnitReport outcome =
     (case outcome of
        ParseFailure m \<Rightarrow> Inl (Error m)
      | Parsed None \<Rightarrow> Inl (TypeError (cannot_read ''null'' ''testsuites''))
      | Parsed (Some (rootName, node)) \<Rightarrow>
          if rootName \<noteq> ''testsuites'' then Inl (TypeError (cannot_read ''undefined'' ''testsuite''))
          else (case child node ''testsuite'' of
                  None \<Rightarrow> Inl (TypeError (cannot_read ''undefined'' ''forEach''))
                | Some suites \<Rightarrow> top_suites suites []))"

text \<open>A value inside a template literal: \<open>undefined\<close> prints as its name.\<close>

definition template :: "string option \<Rightarrow> string" where
  "template v = (case v of None \<Rightarrow> ''undefined'' | Some s \<Rightarrow> s)"

text \<open>\<open>a || b\<close> on optional strings.\<close>

definition or_str :: "string option \<Rightarrow> string option \<Rightarrow> string option" where
  "or_str a b = (if truthy_str a then a else b)"

definition failure_or_error :: "JUnitTestCase \<Rightarrow> xnode option" where
  "failure_or_error testCase =
     (if truthy_str (or_str (ju_failure testCase) (ju_error testCase))
      then map_option XStr (or_str (ju_failure testCase) (ju_error testCase))
      else None)"

definition convertToCTRFTest_junit :: "JUnitTestCase \<Rightarrow> CtrfTest" where
  "convertToCTRFTest_junit testCase =
     \<lparr> ctrf_name = template (ju_suite testCase) @ '': '' @ template (ju_name testCase),
       ctrf_status =
         (if truthy_str (ju_failure testCase) then Failed
          else if truthy_str (ju_error testCase) then Failed
          else if ju_skipped testCase then Skipped
          else Passed),
       ctrf_duration = Math_round (times1000 (parseFloat (ju_time testCase))),
       ctrf_message = failure_or_error testCase,
       ctrf_trace = failure_or_error testCase \<rparr>"

definition count_status :: "CtrfTestState \<Rightarrow> CtrfTest list \<Rightarrow> jsnum" where
  "count_status st ctrfTests = Fin (of_nat (length (filter (\<lambda>t. ctrf_status t = st) ctrfTests)))"

definition createCTRFReport_junit ::
  "JUnitTestCase list \<Rightarrow> string option \<Rightarrow> env_object \<Rightarrow> CtrfReport" where
  "createCTRFReport_junit testCases toolName envProps =
     (let ctrfTests = map convertToCTRFTest_junit testCases
      in \<lparr> tool_name = or_default toolName ''junit-to-ctrf'',
           summary = \<lparr> sum_tests = Fin (of_nat (length ctrfTests)),
                       sum_passed = count_status Passed ctrfTests,
                       sum_failed = count_status Failed ctrfTests,
                       sum_pending = count_status Pending ctrfTests,
                       sum_skipped = count_status Skipped ctrfTests,
                       sum_other = count_status Other ctrfTests,
                       sum_start = 0,
                       sum_stop = 0 \<rparr>,
           report_tests = ctrfTests,
           environment = (if envProps \<noteq> [] then Some envProps else None) \<rparr>)"

definition ctrfReport_junit ::
  "parse_outcome \<Rightarrow> string option \<Rightarrow> string list option \<Rightarrow> error + CtrfReport" where
  "ctrfReport_junit outcome toolName envProps =
     (case parseJUnitReport outcome of
        Inl e \<Rightarrow> Inl e
      | Inr testCases \<Rightarrow> Inr (createCTRFReport_junit testCases toolName (envPropsObj envProps)))"

definition convertJUnitToCTRF ::
  "parse_outcome \<Rightarrow> string option \<Rightarrow> string option \<Rightarrow> string list option
     \<Rightarrow> files \<Rightarrow> (error + unit) \<times> files" where
  "convertJUnitToCTRF outcome outputPath toolName envProps fs =
     (case ctrfReport_junit outcome toolName envProps of
        Inl e \<Rightarrow> (Inl e, fs)
      | Inr ctrfReport \<Rightarrow> (Inr (), fs(finalOutputPath outputPath \<mapsto> ctrfReport)))"

section \<open>Notions the properties are stated with\<close>

text \<open>A parsed document has no root element of the given name (or is no document at all).\<close>

definition lacks_root :: "(string \<times> xnode) option \<Rightarrow> string \<Rightarrow> bool" where
  "lacks_root doc name = (case doc of None \<Rightarrow> True | Some (rootName, node) \<Rightarrow> rootName \<noteq> name)"

text \<open>
  \<open><testsuites><testsuite name="S"><testcase name="t" time="0"><failure message="boom"/>
  </testcase></testsuite></testsuites>\<close>
\<close>

definition failure_without_text :: "(string \<times> xnode) option" where
  "failure_without_text =
     Some (''testsuites'',
       XObj None None
         [(''testsuite'',
           [XObj (Some [(''name'', ''S'')]) None
              [(''testcase'',
                [XObj (Some [(''name'', ''t''), (''time'', ''0'')]) None
                   [(''failure'', [XObj (Some [(''message'', ''boom'')]) None []])]])]])])"

text \<open>\<open><testng-results><suite name="S"/></testng-results>\<close>\<close>

definition root_without_attributes :: "(string \<times> xnode) option" where
  "root_without_attributes =
     Some (''testng-results'', XObj None None [(''suite'', [XObj (Some [(''name'', ''S'')]) None []])])"

text \<open>An engine whose date parser rejects every string (no property below depends on dates).\<close>

definition no_dates :: "string \<Rightarrow> int option" where
  "no_dates s = None"

lemma size_member_child:
  "child n name = Some cs \<Longrightarrow> x \<in> set cs \<Longrightarrow> size x < size n"
  using size_child_lt [of n name cs] size_list_estimation' [of x cs "size x" size]
  by simp

function testcase_leaves :: "xnode \<Rightarrow> xnode list" where
  "testcase_leaves suite =
     (case child suite ''testcase'' of None \<Rightarrow> [] | Some tcs \<Rightarrow> tcs)
     @ (case child suite ''testsuite'' of
          None \<Rightarrow> []
        | Some nested \<Rightarrow> concat (map testcase_leaves nested))"
  by pat_completeness auto
termination
  by (relation "measure size") (auto dest: size_member_child)

declare testcase_leaves.simps [simp del]

definition tagged_leaves :: "xnode \<Rightarrow> (string option \<times> xnode) list" where
  "tagged_leaves suite = map (Pair (opt_attr suite ''name'')) (testcase_leaves suite)"

definition document_leaves :: "(string \<times> xnode) option \<Rightarrow> (string option \<times> xnode) list" where
  "document_leaves doc =
     (case doc of
        None \<Rightarrow> []
      | Some (rootName, node) \<Rightarrow>
          if rootName = ''testsuites''
          then (case child node ''testsuite'' of
                  None \<Rightarrow> []
                | Some suites \<Rightarrow> concat (map tagged_leaves suites))
          else [])"

definition leaf_test :: "string option \<times> xnode \<Rightarrow> error + CtrfTest" where
  "leaf_test p = map_sum id convertToCTRFTest_junit (extract_testcase (fst p) (snd p))"

text \<open>
  One top-level suite \<open>Suite A\<close> holding a nested suite with two test cases, the
  second with a \<open>failure\<close> child that carries text.
\<close>

definition nested_suites :: "(string \<times> xnode) option" where
  "nested_suites =
     Some (''testsuites'',
       XObj None None
         [(''testsuite'',
           [XObj (Some [(''name'', ''Suite A'')]) None
              [(''testsuite'',
                [XObj (Some [(''name'', ''Inner'')]) None
                   [(''testcase'',
                     [XObj (Some [(''name'', ''ok''), (''time'', ''1.234'')]) None [],
                      XObj (Some [(''name'', ''bad''), (''time'', ''0'')]) None
                        [(''failure'', [XObj (Some [(''message'', ''m'')]) (Some ''boom'') []])]])]])]])])"

text \<open>
  The test-methods of a suite, each with the test element that encloses it, in document
  order; and those of every suite of a document.
\<close>

definition child_list :: "xnode \<Rightarrow> string \<Rightarrow> xnode list" where
  "child_list n name = (case child n name of None \<Rightarrow> [] | Some cs \<Rightarrow> cs)"

definition suite_methods :: "xnode \<Rightarrow> (xnode \<times> xnode) list" where
  "suite_methods suite =
     concat (map (\<lambda>test.
       concat (map (\<lambda>classObj. map (Pair test) (child_list classObj ''test-method''))
         (child_list test ''class'')))
       (child_list suite ''test''))"

definition document_methods :: "(string \<times> xnode) option \<Rightarrow> (xnode \<times> xnode) list" where
  "document_methods doc =
     (case doc of
        None \<Rightarrow> []
      | Some (rootName, node) \<Rightarrow>
          if rootName = ''testng-results''
          then concat (map suite_methods (child_list node ''suite''))
          else [])"

definition is_config :: "xnode \<Rightarrow> bool" where
  "is_config method = (opt_attr method ''is_config'' = Some ''true'')"

definition non_config :: "(xnode \<times> xnode) list \<Rightarrow> (xnode \<times> xnode) list" where
  "non_config ms = filter (\<lambda>p. \<not> is_config (snd p)) ms"

definition method_names :: "(xnode \<times> xnode) list \<Rightarrow> string option list" where
  "method_names ms = map (\<lambda>p. opt_attr (snd p) ''name'') ms"

definition has_attributes :: "xnode \<Rightarrow> bool" where
  "has_attributes n = (attr_bag n \<noteq> None)"

text \<open>
  A method is reported when it has attributes and is no configuration method;
  \<open>method_test\<close> is the output test of a method inside a test element with attributes.
\<close>

definition reported :: "xnode \<times> xnode \<Rightarrow> bool" where
  "reported p = (has_attributes (snd p) \<and> \<not> is_config (snd p))"

definition method_test :: "(string \<Rightarrow> int option) \<Rightarrow> xnode \<times> xnode \<Rightarrow> CtrfTest" where
  "method_test dp p =
     convertToCTRFTest_testng
       (make_testCase dp (the (attr_bag (fst p))) (snd p) (the (attr_bag (snd p))))"

text \<open>
  The pairs for which the innermost loop of the walk reaches its \<open>push\<close>: the early
  return is not taken and the read of the test name does not throw.
\<close>

definition pushed :: "xnode \<times> xnode \<Rightarrow> bool" where
  "pushed p = (attr_bag (fst p) \<noteq> None \<and> attr_bag (snd p) \<noteq> None \<and> \<not> is_config (snd p))"

text \<open>
  A valid TestNG document: the root is \<open>testng-results\<close> and has attributes, it has a
  first \<open>suite\<close> element that is not empty, and every \<open>test\<close> element of that suite has
  attributes.
\<close>

definition testng_valid :: "(string \<times> xnode) option \<Rightarrow> bool" where
  "testng_valid doc =
     (case doc of
        None \<Rightarrow> False
      | Some (rootName, node) \<Rightarrow>
          rootName = ''testng-results'' \<and> has_attributes node \<and>
          (case first_elem (child node ''suite'') of
             None \<Rightarrow> False
           | Some suite \<Rightarrow> truthy suite \<and> list_all has_attributes (child_list suite ''test'')))"

text \<open>
  Two suites under one root, each with one test, one class and one method that is not a
  configuration method: \<open>a\<close> in the first suite, \<open>b\<close> in the second.
\<close>

definition one_method_suite :: "string \<Rightarrow> string \<Rightarrow> string \<Rightarrow> xnode" where
  "one_method_suite suite_name test_name method_name =
     XObj (Some [(''name'', suite_name)]) None
       [(''test'',
         [XObj (Some [(''name'', test_name)]) None
            [(''class'',
              [XObj (Some [(''name'', ''C'')]) None
                 [(''test-method'',
                   [XObj (Some [(''name'', method_name), (''status'', ''PASS'')]) None []])]])]])]"

definition two_suites :: "(string \<times> xnode) option" where
  "two_suites =
     Some (''testng-results'',
       XObj (Some [(''total'', ''2''), (''passed'', ''2'')]) None
         [(''suite'',
           [one_method_suite ''S1'' ''T1'' ''a'', one_method_suite ''S2'' ''T2'' ''b''])])"

text \<open>
  A first suite whose only class holds, in this order, the configuration method \<open>setUp\<close>
  (\<open>is_config="true"\<close>), the method \<open>a\<close>, an empty \<open>test-method\<close> element without
  attributes, and the method \<open>b\<close> with \<open>is_config="TRUE"\<close>; then a second suite with the
  method \<open>c\<close>.
\<close>

definition method_setUp :: xnode where
  "method_setUp =
     XObj (Some [(''name'', ''setUp''), (''status'', ''PASS''), (''is_config'', ''true'')]) None []"

definition method_a :: xnode where
  "method_a = XObj (Some [(''name'', ''a''), (''status'', ''PASS'')]) None []"

definition method_b :: xnode where
  "method_b =
     XObj (Some [(''name'', ''b''), (''status'', ''FAIL''), (''is_config'', ''TRUE'')]) None []"

definition mixed_test :: xnode where
  "mixed_test =
     XObj (Some [(''name'', ''T1'')]) None
       [(''class'',
         [XObj (Some [(''name'', ''C'')]) None
            [(''test-method'', [method_setUp, method_a, XStr [], method_b])]])]"

definition mixed_first_suite :: xnode where
  "mixed_first_suite = XObj (Some [(''name'', ''S1'')]) None [(''test'', [mixed_test])]"

definition mixed_suites :: "(string \<times> xnode) option" where
  "mixed_suites =
     Some (''testng-results'',
       XObj (Some [(''total'', ''4'')]) None
         [(''suite'', [mixed_first_suite, one_method_suite ''S2'' ''T2'' ''c''])])"

text \<open>
  \<open><testsuites><testsuite name="S"><testcase name="t" time="0"><error/></testcase>
  </testsuite></testsuites>\<close>: the empty \<open>error\<close> element is the empty string.
\<close>

definition empty_error_element :: "(string \<times> xnode) option" where
  "empty_error_element =
     Some (''testsuites'',
       XObj None None
         [(''testsuite'',
           [XObj (Some [(''name'', ''S'')]) None
              [(''testcase'',
                [XObj (Some [(''name'', ''t''), (''time'', ''0'')]) None
                   [(''error'', [XStr []])]])]])])"

text \<open>Test cases with a \<open>failure\<close> text, with an \<open>error\<close> text only, and with neither.\<close>

definition testcase_with :: "(string \<times> xnode list) list \<Rightarrow> xnode" where
  "testcase_with kids = XObj (Some [(''name'', ''t''), (''time'', ''0'')]) None kids"

text \<open>
  Rounding to the nearest integer with ties away from zero, following the words of the
  specification (not taken from the code).
\<close>

definition round_half_away :: "rat \<Rightarrow> int" where
  "round_half_away x = (if 0 \<le> x then \<lfloor>x + 1 / 2\<rfloor> else - \<lfloor>- x + 1 / 2\<rfloor>)"

text \<open>A JUnit test case record with the given \<open>time\<close> attribute.\<close>

definition timed_case :: "string option \<Rightarrow> JUnitTestCase" where
  "timed_case t =
     \<lparr> ju_suite = Some ''S'', ju_classname = None, ju_name = Some ''t'', ju_time = t,
       ju_failure = None, ju_error = None, ju_skipped = False \<rparr>"

text \<open>
  \<open><testng-results total="1"><suite name="S"><test name="T"><class name="C">
  <test-method name="a" status="PASS" duration-ms="-5"/></class></test></suite>
  </testng-results>\<close>
\<close>

definition negative_duration :: "(string \<times> xnode) option" where
  "negative_duration =
     Some (''testng-results'',
       XObj (Some [(''total'', ''1'')]) None
         [(''suite'',
           [XObj (Some [(''name'', ''S'')]) None
              [(''test'',
                [XObj (Some [(''name'', ''T'')]) None
                   [(''class'',
                     [XObj (Some [(''name'', ''C'')]) None
                        [(''test-method'',
                          [XObj (Some [(''name'', ''a''), (''status'', ''PASS''),
                                       (''duration-ms'', ''-5'')]) None []])]])]])]])])"

text \<open>
  A JUnit document of the expected shape: the root is \<open>testsuites\<close>, it has \<open>testsuite\<close>
  children, and every top-level suite and every \<open>testcase\<close> leaf has attributes.
\<close>

definition junit_well_formed :: "(string \<times> xnode) option \<Rightarrow> bool" where
  "junit_well_formed doc =
     (case doc of
        None \<Rightarrow> False
      | Some (rootName, node) \<Rightarrow>
          rootName = ''testsuites'' \<and>
          (case child node ''testsuite'' of
             None \<Rightarrow> False
           | Some suites \<Rightarrow> list_all has_attributes suites) \<and>
          list_all has_attributes (map snd (document_leaves doc)))"

section \<open>Supporting lemmas\<close>

lemma report_tests_junit:
  "report_tests (createCTRFReport_junit testCases toolName envProps)
     = map convertToCTRFTest_junit testCases"
  by (simp add: createCTRFReport_junit_def Let_def)

lemma report_tests_testng:
  "report_tests (createCTRFReport_testng testCases results toolName envProps)
     = map convertToCTRFTest_testng testCases"
  by (simp add: createCTRFReport_testng_def)

lemma push_testcases_leaves:
  "push_testcases nm tcs acc = Inr r \<Longrightarrow>
   map Inr r = map Inr acc @ map (extract_testcase nm) tcs"
proof (induction tcs arbitrary: acc)
  case Nil
  then show ?case by simp
next
  case (Cons tc tcs)
  then show ?case by (auto split: sum.splits)
qed

lemma parseTestSuite_leaves:
  "parseTestSuite suite nm acc = Inr r \<Longrightarrow>
     map Inr r = map Inr acc @ map (extract_testcase nm) (testcase_leaves suite)"
  and parseTestSuites_leaves:
  "parseTestSuites suites nm acc = Inr r \<Longrightarrow>
     map Inr r = map Inr acc @ map (extract_testcase nm) (concat (map testcase_leaves suites))"
proof (induction suite nm acc and suites nm acc arbitrary: r and r
       rule: parseTestSuite_parseTestSuites.induct)
  case (1 suite suiteName testCases)
  from "1.prems" obtain mid where
    mid: "(case child suite ''testcase'' of None \<Rightarrow> Inr testCases
          | Some tcs \<Rightarrow> push_testcases suiteName tcs testCases) = Inr mid"
    and rest: "(case child suite ''testsuite'' of None \<Rightarrow> Inr mid
          | Some nested \<Rightarrow> parseTestSuites nested suiteName mid) = Inr r"
    by (auto split: sum.splits)
  have a: "map Inr mid = map Inr testCases
             @ map (extract_testcase suiteName) (case child suite ''testcase'' of None \<Rightarrow> [] | Some tcs \<Rightarrow> tcs)"
    using mid by (auto split: option.splits dest: push_testcases_leaves)
  have b: "map Inr r = map Inr mid
             @ map (extract_testcase suiteName)
                 (case child suite ''testsuite'' of None \<Rightarrow> [] | Some nested \<Rightarrow> concat (map testcase_leaves nested))"
  proof (cases "child suite ''testsuite''")
    case None
    with rest show ?thesis by simp
  next
    case (Some nested)
    with rest have "parseTestSuites nested suiteName mid = Inr r" by simp
    from "1.IH" [OF mid Some this] Some show ?thesis by simp
  qed
  show ?case
    using a b by (simp add: testcase_leaves.simps [of suite])
next
  case (2 suiteName testCases)
  then show ?case by simp
next
  case (3 nestedSuite rest suiteName testCases)
  from "3.prems" obtain mid where
    mid: "parseTestSuite nestedSuite suiteName testCases = Inr mid"
    and r: "parseTestSuites rest suiteName mid = Inr r"
    by (auto split: sum.splits)
  from "3.IH"(1) [OF mid] "3.IH"(2) [OF mid r] show ?case by simp
qed

lemma top_suites_leaves:
  "top_suites suites acc = Inr r \<Longrightarrow>
   map Inr r = map Inr acc
     @ map (\<lambda>p. extract_testcase (fst p) (snd p)) (concat (map tagged_leaves suites))"
proof (induction suites arbitrary: acc)
  case Nil
  then show ?case by simp
next
  case (Cons suite suites)
  from Cons.prems obtain bag mid where
    bag: "attr_bag suite = Some bag"
    and mid: "parseTestSuite suite (attr bag ''name'') acc = Inr mid"
    and r: "top_suites suites mid = Inr r"
    by (auto split: option.splits sum.splits)
  have nm: "opt_attr suite ''name'' = attr bag ''name''"
    using bag by (simp add: opt_attr_def)
  from parseTestSuite_leaves [OF mid] Cons.IH [OF r] nm show ?case
    by (simp add: tagged_leaves_def comp_def)
qed

lemma parseJUnitReport_leaves:
  "parseJUnitReport (Parsed doc) = Inr testCases \<Longrightarrow>
   map Inr testCases = map (\<lambda>p. extract_testcase (fst p) (snd p)) (document_leaves doc)"
proof -
  assume p: "parseJUnitReport (Parsed doc) = Inr testCases"
  then obtain node suites where
    doc: "doc = Some (''testsuites'', node)"
    and suites: "child node ''testsuite'' = Some suites"
    and top: "top_suites suites [] = Inr testCases"
    by (auto simp: parseJUnitReport_def split: option.splits if_splits)
  from top_suites_leaves [OF top] show ?thesis
    by (simp add: document_leaves_def doc suites)
qed

lemma process_method_pushed:
  "foldl (process_method dp test) acc ms
     = acc @ map (\<lambda>p. make_testCase dp (the (attr_bag (fst p))) (snd p) (the (attr_bag (snd p))))
               (filter pushed (map (Pair test) ms))"
proof (induction ms arbitrary: acc)
  case Nil
  then show ?case by simp
next
  case (Cons m ms)
  show ?case
    by (simp add: Cons.IH)
       (auto simp: process_method_def pushed_def is_config_def opt_attr_def split: option.splits)
qed

lemma process_class_pushed:
  "foldl (process_class dp test) acc cs
     = acc @ map (\<lambda>p. make_testCase dp (the (attr_bag (fst p))) (snd p) (the (attr_bag (snd p))))
               (filter pushed
                  (concat (map (\<lambda>classObj. map (Pair test) (child_list classObj ''test-method'')) cs)))"
proof (induction cs arbitrary: acc)
  case Nil
  then show ?case by simp
next
  case (Cons c cs)
  show ?case
    by (simp add: Cons.IH)
       (simp add: process_class_def child_list_def process_method_pushed split: option.splits)
qed

lemma process_test_pushed:
  "foldl (process_test dp) acc ts
     = acc @ map (\<lambda>p. make_testCase dp (the (attr_bag (fst p))) (snd p) (the (attr_bag (snd p))))
               (filter pushed
                  (concat (map (\<lambda>test.
                     concat (map (\<lambda>classObj. map (Pair test) (child_list classObj ''test-method''))
                       (child_list test ''class''))) ts)))"
proof (induction ts arbitrary: acc)
  case Nil
  then show ?case by simp
next
  case (Cons t ts)
  show ?case
    by (simp add: Cons.IH)
       (simp add: process_test_def child_list_def process_class_pushed split: option.splits)
qed

lemma parseTestNGReport_first_suite:
  "parseTestNGReport dp (Parsed doc) = Inr (testCases, results) \<Longrightarrow>
   \<exists>rootName node suite.
     doc = Some (rootName, node) \<and> first_elem (child node ''suite'') = Some suite \<and>
     testCases = map (\<lambda>p. make_testCase dp (the (attr_bag (fst p))) (snd p) (the (attr_bag (snd p))))
                   (filter pushed (suite_methods suite))"
  by (auto simp: parseTestNGReport_def process_test_pushed suite_methods_def child_list_def
      split: option.splits if_splits prod.splits)

lemma toLowerCase_FAIL: "toLowerCase ''FAIL'' = ''fail''"
  by code_simp
lemma toLowerCase_PASS: "toLowerCase ''PASS'' = ''pass''"
  by code_simp

lemma suite_methods_test_attributes:
  "list_all has_attributes (child_list suite ''test'') \<Longrightarrow>
   p \<in> set (suite_methods suite) \<Longrightarrow> has_attributes (fst p)"
  by (auto simp: suite_methods_def list_all_iff)

lemma pushed_is_reported:
  "list_all has_attributes (child_list suite ''test'') \<Longrightarrow>
   filter pushed (suite_methods suite) = filter reported (suite_methods suite)"
proof (rule filter_cong [OF refl])
  fix p
  assume "list_all has_attributes (child_list suite ''test'')" and "p \<in> set (suite_methods suite)"
  then have "has_attributes (fst p)" by (rule suite_methods_test_attributes)
  then show "pushed p = reported p"
    by (simp add: pushed_def reported_def has_attributes_def)
qed

lemma testng_valid_parses:
  "testng_valid doc \<Longrightarrow>
   \<exists>rootName node suite testCases results.
     doc = Some (rootName, node) \<and> first_elem (child node ''suite'') = Some suite \<and>
     list_all has_attributes (child_list suite ''test'') \<and>
     parseTestNGReport dp (Parsed doc) = Inr (testCases, results)"
proof -
  assume "testng_valid doc"
  then obtain node suite where
    doc: "doc = Some (''testng-results'', node)"
    and bag: "has_attributes node"
    and suite: "first_elem (child node ''suite'') = Some suite"
    and tr: "truthy suite"
    and tests: "list_all has_attributes (child_list suite ''test'')"
    by (auto simp: testng_valid_def split: option.splits)
  from bag obtain b where b: "attr_bag node = Some b"
    by (auto simp: has_attributes_def)
  from b have "truthy node" by (cases node) simp_all
  with doc suite tr b tests show ?thesis
    by (simp add: parseTestNGReport_def)
qed

lemma testng_summary_from_root_attributes:
  "ctrfReport_testng dp (Parsed doc) toolName envProps = Inr report \<Longrightarrow>
   \<exists>rootName node bag.
     doc = Some (rootName, node) \<and> attr_bag node = Some bag \<and>
     sum_tests (summary report) = or_zero (parseInt (attr bag ''total'')) \<and>
     sum_passed (summary report) = or_zero (parseInt (attr bag ''passed'')) \<and>
     sum_failed (summary report) = or_zero (parseInt (attr bag ''failed'')) \<and>
     sum_skipped (summary report) = or_zero (parseInt (attr bag ''skipped'')) \<and>
     sum_other (summary report) = or_zero (parseInt (attr bag ''ignored'')) \<and>
     sum_pending (summary report) = Fin 0"
  by (auto simp: ctrfReport_testng_def parseTestNGReport_def createCTRFReport_testng_def
      split: sum.splits option.splits if_splits prod.splits)

lemma floor_rat_numeral_div [simp]:
  "\<lfloor>numeral a / numeral b :: rat\<rfloor> = numeral a div numeral b"
  using floor_divide_of_int_eq [of "numeral a" "numeral b", where ?'a = rat] by simp

lemma pow2_pos: "0 < pow2 e"
  by (simp add: pow2_def)

lemma round_half_even_int: "round_half_even (of_int k) = k"
  by (simp add: round_half_even_def)

lemma round_half_even_nonneg: "0 \<le> q \<Longrightarrow> 0 \<le> round_half_even q"
proof -
  assume "0 \<le> q"
  then have "0 \<le> \<lfloor>q\<rfloor>" by simp
  then show ?thesis by (simp add: round_half_even_def Let_def)
qed

lemma to_double_nonneg: "0 \<le> x \<Longrightarrow> to_double x = Fin y \<Longrightarrow> 0 \<le> y"
proof -
  assume x: "0 \<le> x" and d: "to_double x = Fin y"
  show ?thesis
  proof (cases "x = 0")
    case True
    with d show ?thesis by (simp add: to_double_def)
  next
    case False
    with x have pos: "0 < x" by simp
    define e where "e = ulp_exp \<bar>x\<bar>"
    have "0 \<le> \<bar>x\<bar> / pow2 e" using pow2_pos [of e] by simp
    then have "0 \<le> round_half_even (\<bar>x\<bar> / pow2 e)" by (rule round_half_even_nonneg)
    then have "0 \<le> rat_of_int (round_half_even (\<bar>x\<bar> / pow2 e)) * pow2 e"
      using pow2_pos [of e] by simp
    moreover have "y = rat_of_int (round_half_even (\<bar>x\<bar> / pow2 e)) * pow2 e"
      using d pos False by (simp add: to_double_def Let_def e_def split: if_splits)
    ultimately show ?thesis by simp
  qed
qed

lemma to_double_abs_int:
  "x \<noteq> 0 \<Longrightarrow> \<bar>x\<bar> \<in> \<int> \<Longrightarrow>
   rat_of_int (round_half_even (\<bar>x\<bar> / pow2 (ulp_exp \<bar>x\<bar>))) * pow2 (ulp_exp \<bar>x\<bar>) \<in> \<int>"
proof -
  assume "x \<noteq> 0" and "\<bar>x\<bar> \<in> \<int>"
  then obtain k where k: "\<bar>x\<bar> = of_int k" by (auto elim: Ints_cases)
  define e where "e = ulp_exp \<bar>x\<bar>"
  show ?thesis
  proof (cases "0 \<le> e")
    case True
    then have "pow2 e = of_int (2 ^ nat e)" by (simp add: pow2_def)
    then show ?thesis unfolding e_def [symmetric] by (metis Ints_of_int of_int_mult)
  next
    case False
    then have p: "pow2 e = 1 / 2 ^ nat (- e)" by (simp add: pow2_def)
    have "\<bar>x\<bar> / pow2 e = of_int (k * 2 ^ nat (- e))" by (simp add: p k)
    then have "round_half_even (\<bar>x\<bar> / pow2 e) = k * 2 ^ nat (- e)"
      by (simp only: round_half_even_int)
    then have "rat_of_int (round_half_even (\<bar>x\<bar> / pow2 e)) * pow2 e = of_int k"
      by (simp add: p)
    then show ?thesis unfolding e_def [symmetric] by simp
  qed
qed

lemma to_double_int: "to_double (of_int n) = Fin y \<Longrightarrow> y \<in> \<int>"
proof (cases "n = 0")
  case True
  assume "to_double (of_int n) = Fin y"
  with True show ?thesis by (simp add: to_double_def)
next
  case False
  assume d: "to_double (of_int n) = Fin y"
  have nz: "rat_of_int n \<noteq> 0" using False by simp
  have ai: "\<bar>rat_of_int n\<bar> \<in> \<int>" by (metis Ints_of_int of_int_abs)
  from to_double_abs_int [OF nz ai] d nz show ?thesis
    by (auto simp: to_double_def Let_def split: if_splits)
qed

lemma halvings_bounds: "1 \<le> n \<Longrightarrow> 2 ^ halvings n \<le> n \<and> n < 2 ^ Suc (halvings n)"
proof (induction n rule: halvings.induct)
  case (1 n)
  show ?case
  proof (cases "n < 2")
    case True
    with "1.prems" show ?thesis by (simp add: halvings.simps [of n])
  next
    case False
    then have h: "halvings n = Suc (halvings (n div 2))" by (simp add: halvings.simps [of n])
    from False have "1 \<le> n div 2" by simp
    from "1.IH" [OF False this]
    have lo: "2 ^ halvings (n div 2) \<le> n div 2" and hi: "n div 2 < 2 ^ Suc (halvings (n div 2))"
      by simp_all
    from lo have "2 * 2 ^ halvings (n div 2) \<le> n" by simp
    moreover from hi have "n < 2 * 2 ^ Suc (halvings (n div 2))" by simp
    ultimately show ?thesis by (simp add: h)
  qed
qed

lemma to_double_small_int:
  assumes "\<bar>n\<bar> < 2 ^ 53"
  shows "to_double (of_int n) = Fin (of_int n)"
proof (cases "n = 0")
  case True
  then show ?thesis by (simp add: to_double_def)
next
  case False
  define a where "a = \<bar>n\<bar>"
  have a1: "1 \<le> a" using False by (simp add: a_def)
  have ar: "\<bar>rat_of_int n\<bar> = of_int a" by (simp add: a_def)
  have fl: "\<lfloor>rat_of_int a\<rfloor> = a" by simp
  from halvings_bounds [OF a1] have "(2::int) ^ halvings a \<le> a" by simp
  also have "a < 2 ^ 53" using assms by (simp add: a_def)
  finally have "(2::int) ^ halvings a < 2 ^ 53" .
  from power_less_imp_less_exp [OF _ this] have h52: "halvings a < 53" by simp
  define k where "k = 52 - halvings a"
  have e: "ulp_exp (of_int a) = - int k"
    using a1 h52 by (simp add: ulp_exp_def fl k_def)
  have p: "pow2 (- int k) = 1 / 2 ^ k" by (simp add: pow2_def)
  have "of_int a / pow2 (- int k) = rat_of_int (a * 2 ^ k)" by (simp add: p)
  then have r: "round_half_even (of_int a / pow2 (- int k)) = a * 2 ^ k"
    by (simp only: round_half_even_int)
  have v: "rat_of_int (round_half_even (of_int a / pow2 (- int k))) * pow2 (- int k) = of_int a"
    unfolding r by (simp add: p)
  have "rat_of_int a < 2 ^ 53" using assms by (simp add: a_def of_int_less_numeral_power_cancel_iff)
  also have "(2::rat) ^ 53 < 2 ^ 1024" by simp
  finally have small: "\<not> 2 ^ 1024 \<le> rat_of_int a" by simp
  have nz: "rat_of_int n \<noteq> 0" using False by simp
  show ?thesis
  proof (cases "0 < n")
    case True
    then have "rat_of_int a = of_int n" by (simp add: a_def)
    with nz small v e ar True show ?thesis by (simp add: to_double_def Let_def)
  next
    case False
    with \<open>n \<noteq> 0\<close> have "n < 0" by simp
    then have "rat_of_int a = - of_int n" by (simp add: a_def)
    with nz small v e ar \<open>n < 0\<close> show ?thesis by (simp add: to_double_def Let_def)
  qed
qed

lemma parseInt_neg5: "parseInt (Some ''-5'') = Fin (- 5)"
  using to_double_small_int [of "- 5"]
  by (simp add: parseInt_def is_ws_def is_digit_def digits_val_def digit_val_def)

lemma doublings_numeral:
  "doublings (numeral k) a = (if 1 \<le> a then 0 else Suc (doublings (pred_numeral k) (2 * a)))"
  by (simp add: numeral_eq_Suc)

lemma to_double_eval:
  assumes "x \<noteq> 0" and "ulp_exp \<bar>x\<bar> = e" and "round_half_even (\<bar>x\<bar> / pow2 e) = m"
    and "rat_of_int m * pow2 e < 2 ^ 1024"
  shows "to_double x = Fin (if 0 < x then of_int m * pow2 e else - (of_int m * pow2 e))"
  unfolding to_double_def Let_def assms(2) assms(3)
  using assms(1) assms(4) by simp

lemma to_double_1234: "to_double (617 / 500) = Fin (5557441940175192 / 4503599627370496)"
proof -
  have e: "ulp_exp \<bar>617 / 500\<bar> = - 52"
    by (simp add: ulp_exp_def halvings.simps)
  have m: "round_half_even (\<bar>617 / 500\<bar> / pow2 (- 52)) = 5557441940175192"
    by (simp add: round_half_even_def pow2_def Let_def)
  show ?thesis
    using to_double_eval [OF _ e m] by (simp add: pow2_def)
qed

lemma times1000_1234: "times1000 (Fin (5557441940175192 / 4503599627370496)) = Fin 1234"
proof -
  let ?x = "5557441940175192 / 4503599627370496 * 1000 :: rat"
  have e: "ulp_exp \<bar>?x\<bar> = - 42"
    by (simp add: ulp_exp_def halvings.simps)
  have m: "round_half_even (\<bar>?x\<bar> / pow2 (- 42)) = 5427189394702336"
    by (simp add: round_half_even_def pow2_def Let_def)
  show ?thesis
    using to_double_eval [OF _ e m] by (simp add: pow2_def)
qed

lemma to_double_neg_sixteenth: "to_double (- (1 / 16)) = Fin (- (1 / 16))"
proof -
  have e: "ulp_exp \<bar>- (1 / 16)\<bar> = - 56"
    by (simp add: ulp_exp_def doublings_numeral)
  have m: "round_half_even (\<bar>- (1 / 16)\<bar> / pow2 (- 56)) = 4503599627370496"
    by (simp add: round_half_even_def pow2_def Let_def)
  show ?thesis
    using to_double_eval [OF _ e m] by (simp add: pow2_def)
qed

lemma times1000_neg_sixteenth: "times1000 (Fin (- (1 / 16))) = Fin (- (125 / 2))"
proof -
  let ?x = "- (1 / 16) * 1000 :: rat"
  have e: "ulp_exp \<bar>?x\<bar> = - 47"
    by (simp add: ulp_exp_def halvings.simps)
  have m: "round_half_even (\<bar>?x\<bar> / pow2 (- 47)) = 8796093022208000"
    by (simp add: round_half_even_def pow2_def Let_def)
  show ?thesis
    using to_double_eval [OF _ e m] by (simp add: pow2_def)
qed

lemmas parse_eval = is_ws_def is_digit_def digits_val_def digit_val_def pow10_def exponent_part_def

lemma parseFloat_1234: "parseFloat (Some ''1.234'') = Fin (5557441940175192 / 4503599627370496)"
  using to_double_1234 by (simp add: parseFloat_def parse_eval Let_def)

lemma parseFloat_0: "parseFloat (Some ''0'') = Fin 0"
  by (simp add: parseFloat_def parse_eval Let_def to_double_def)

lemma parseFloat_neg_sixteenth: "parseFloat (Some ''-0.0625'') = Fin (- (1 / 16))"
  using to_double_neg_sixteenth by (simp add: parseFloat_def parse_eval Let_def)

lemma parseInt_12: "parseInt (Some ''12'') = Fin 12"
  using to_double_small_int [of 12]
  by (simp add: parseInt_def parse_eval)

lemma floor_rat_half: "\<lfloor>1 / 2 :: rat\<rfloor> = 0"
  by (simp add: floor_unique)

lemma junit_ms_1234: "Math_round (times1000 (parseFloat (Some ''1.234''))) = Fin 1234"
  by (simp only: parseFloat_1234 times1000_1234 Math_round.simps) simp

lemma junit_ms_0: "Math_round (times1000 (parseFloat (Some ''0''))) = Fin 0"
  by (simp only: parseFloat_0 times1000.simps) (simp add: to_double_def floor_rat_half)

lemma junit_product_neg_sixteenth: "times1000 (parseFloat (Some ''-0.0625'')) = Fin (- (125 / 2))"
  by (simp only: parseFloat_neg_sixteenth times1000_neg_sixteenth)

lemma junit_ms_neg_sixteenth: "Math_round (times1000 (parseFloat (Some ''-0.0625''))) = Fin (- 62)"
  by (simp only: junit_product_neg_sixteenth Math_round.simps) simp

lemma Math_round_nearest:
  "\<bar>rat_of_int \<lfloor>y + 1 / 2\<rfloor> - y\<bar> \<le> 1 / 2"
proof -
  have "rat_of_int \<lfloor>y + 1 / 2\<rfloor> \<le> y + 1 / 2" by (rule of_int_floor_le)
  moreover have "y + 1 / 2 < rat_of_int \<lfloor>y + 1 / 2\<rfloor> + 1"
    using floor_correct [of "y + 1 / 2"] by simp
  ultimately show ?thesis by linarith
qed

lemma Math_round_tie:
  "y - rat_of_int \<lfloor>y\<rfloor> = 1 / 2 \<Longrightarrow> \<lfloor>y + 1 / 2\<rfloor> = \<lfloor>y\<rfloor> + 1"
proof -
  assume "y - rat_of_int \<lfloor>y\<rfloor> = 1 / 2"
  then have "y + 1 / 2 = rat_of_int (\<lfloor>y\<rfloor> + 1)" by simp
  then show ?thesis by (simp only: floor_of_int)
qed

lemma parseInt_finite_int: "parseInt v = Fin x \<Longrightarrow> x \<in> \<int>"
proof -
  assume p: "parseInt v = Fin x"
  then obtain n where "to_double (of_int n) = Fin x"
    by (auto simp: parseInt_def Let_def split: option.splits prod.splits if_splits)
       (metis of_int_minus)
  then show ?thesis by (rule to_double_int)
qed

lemma push_testcases_total:
  "list_all has_attributes tcs \<Longrightarrow> \<exists>r. push_testcases nm tcs acc = Inr r"
proof (induction tcs arbitrary: acc)
  case Nil
  then show ?case by simp
next
  case (Cons tc tcs)
  then show ?case
    by (auto simp: has_attributes_def extract_testcase_def split: option.splits)
qed

lemma parseTestSuite_total:
  "list_all has_attributes (testcase_leaves suite) \<Longrightarrow> \<exists>r. parseTestSuite suite nm acc = Inr r"
  and parseTestSuites_total:
  "list_all has_attributes (concat (map testcase_leaves suites)) \<Longrightarrow>
     \<exists>r. parseTestSuites suites nm acc = Inr r"
proof (induction suite nm acc and suites nm acc
       rule: parseTestSuite_parseTestSuites.induct)
  case (1 suite suiteName testCases)
  from "1.prems" have
    own: "list_all has_attributes (case child suite ''testcase'' of None \<Rightarrow> [] | Some tcs \<Rightarrow> tcs)"
    and nested: "list_all has_attributes
      (case child suite ''testsuite'' of None \<Rightarrow> [] | Some nested \<Rightarrow> concat (map testcase_leaves nested))"
    by (simp_all add: testcase_leaves.simps [of suite])
  have "\<exists>mid. (case child suite ''testcase'' of None \<Rightarrow> Inr testCases
          | Some tcs \<Rightarrow> push_testcases suiteName tcs testCases) = Inr mid"
  proof (cases "child suite ''testcase''")
    case None
    then show ?thesis by simp
  next
    case (Some tcs)
    with own have "list_all has_attributes tcs" by simp
    from push_testcases_total [OF this] Some show ?thesis by simp
  qed
  then obtain mid where
    mid: "(case child suite ''testcase'' of None \<Rightarrow> Inr testCases
          | Some tcs \<Rightarrow> push_testcases suiteName tcs testCases) = Inr mid"
    by blast
  show ?case
  proof (cases "child suite ''testsuite''")
    case None
    with mid show ?thesis by simp
  next
    case (Some ns)
    with nested have "list_all has_attributes (concat (map testcase_leaves ns))" by simp
    from "1.IH" [OF mid Some this] mid Some show ?thesis by simp
  qed
next
  case (2 suiteName testCases)
  then show ?case by simp
next
  case (3 nestedSuite rest suiteName testCases)
  from "3.prems" have a: "list_all has_attributes (testcase_leaves nestedSuite)"
    and b: "list_all has_attributes (concat (map testcase_leaves rest))"
    by simp_all
  from "3.IH"(1) [OF a] obtain mid where
    mid: "parseTestSuite nestedSuite suiteName testCases = Inr mid" by blast
  from "3.IH"(2) [OF mid b] mid show ?case by simp
qed

lemma top_suites_total:
  "list_all has_attributes suites \<Longrightarrow>
   list_all has_attributes (concat (map testcase_leaves suites)) \<Longrightarrow>
   \<exists>r. top_suites suites acc = Inr r"
proof (induction suites arbitrary: acc)
  case Nil
  then show ?case by simp
next
  case (Cons suite suites)
  from Cons.prems obtain bag where bag: "attr_bag suite = Some bag"
    by (auto simp: has_attributes_def)
  from Cons.prems have "list_all has_attributes (testcase_leaves suite)" by simp
  from parseTestSuite_total [OF this] obtain mid where
    mid: "parseTestSuite suite (attr bag ''name'') acc = Inr mid" by blast
  from Cons.prems have "\<exists>r. top_suites suites mid = Inr r"
    by (intro Cons.IH) simp_all
  with bag mid show ?case by simp
qed

lemma junit_well_formed_converts:
  "junit_well_formed doc \<Longrightarrow> \<exists>report. ctrfReport_junit (Parsed doc) toolName envProps = Inr report"
proof -
  assume wf: "junit_well_formed doc"
  then obtain node suites where
    doc: "doc = Some (''testsuites'', node)"
    and suites: "child node ''testsuite'' = Some suites"
    and tops: "list_all has_attributes suites"
    and leaves: "list_all has_attributes (map snd (document_leaves doc))"
    by (auto simp: junit_well_formed_def split: option.splits)
  have "map snd (document_leaves doc) = concat (map testcase_leaves suites)"
    by (simp add: document_leaves_def doc suites tagged_leaves_def map_concat comp_def)
  with leaves have "list_all has_attributes (concat (map testcase_leaves suites))" by simp
  from top_suites_total [OF tops this] obtain r where "top_suites suites [] = Inr r" by blast
  then show ?thesis
    by (simp add: ctrfReport_junit_def parseJUnitReport_def doc suites)
qed

lemma split_on_no_sep: "sep \<notin> set v \<Longrightarrow> split_on sep v = [v]"
  by (induction v) auto

lemma split_on_one_sep:
  "sep \<notin> set k \<Longrightarrow> sep \<notin> set v \<Longrightarrow> split_on sep (k @ sep # v) = [k, v]"
  by (induction k) (auto simp: split_on_no_sep)

lemma fromEntries_last_wins:
  "map_of (fromEntries (es @ [e])) (entry_key e) = Some (entry_value e)"
  by (simp add: fromEntries_def update_conv')

lemma env_key_value_last_wins:
  "CHR ''='' \<notin> set k \<Longrightarrow> CHR ''='' \<notin> set v \<Longrightarrow>
   map_of (envPropsObj (Some (ps @ [k @ CHR ''='' # v]))) k = Some (Some v)"
  using fromEntries_last_wins [of "map (split_on CHR ''='') ps" "[k, v]"]
  by (simp add: envPropsObj_def split_on_one_sep)

section \<open>Properties\<close>

text \<open>
  C1. The claim is that a JUnit test case with a \<open>failure\<close> or \<open>error\<close> child element
  is failed. The mapper tests the text of the element instead of its presence: a test
  case whose \<open>failure\<close> element has attributes only is reported as passed.
\<close>

theorem junit_failure_without_text_is_passed:
  "map_sum id (map ctrf_status \<circ> report_tests) (ctrfReport_junit (Parsed failure_without_text) None None)
     = Inr [Passed]"
  by (simp add: failure_without_text_def ctrfReport_junit_def parseJUnitReport_def
      extract_testcase_def element_text_def attr_def report_tests_junit
      convertToCTRFTest_junit_def)

text \<open>
  C2. The claim is that a missing count attribute is never fatal. A root element without
  any attribute has no attribute bag, and reading \<open>total\<close> from it rejects the conversion.
\<close>

theorem testng_root_without_attributes_rejects:
  "ctrfReport_testng no_dates (Parsed root_without_attributes) None None
     = Inl (Error (''Failed to parse TestNG report: '' @ cannot_read ''undefined'' ''total''))"
  by (simp add: root_without_attributes_def ctrfReport_testng_def parseTestNGReport_def)

text \<open>
  C3. The claim is that every test-method that is no configuration method appears in the
  output. As stated it fails: only the first \<open>suite\<close> element is walked, so the method
  \<open>b\<close> of a second suite is in the document and not in the output.
\<close>

theorem testng_later_suites_dropped:
  "map_sum id (map ctrf_name \<circ> report_tests) (ctrfReport_testng no_dates (Parsed two_suites) None None)
     = Inr [''T1: a''] \<and>
   method_names (non_config (document_methods two_suites)) = [Some ''a'', Some ''b'']"
  by (simp add: two_suites_def one_method_suite_def ctrfReport_testng_def parseTestNGReport_def
      report_tests_testng process_test_def process_class_def process_method_def attr_def
      make_testCase_def convertToCTRFTest_testng_def or_default_def
      method_names_def non_config_def document_methods_def suite_methods_def child_list_def
      is_config_def opt_attr_def)

text \<open>
  C3, as amended. For every valid TestNG report, every test-method of the first \<open>suite\<close>
  element whose \<open>is_config\<close> attribute equals the string \<open>true\<close> is absent from the output
  test list, and every other test-method of the first suite that has attributes appears
  in it exactly once: the conversion produces a report whose test list is, in document
  order, one test for each such method.
\<close>

theorem testng_first_suite_methods:
  "testng_valid doc \<Longrightarrow>
   \<exists>rootName node suite report.
     doc = Some (rootName, node) \<and> first_elem (child node ''suite'') = Some suite \<and>
     ctrfReport_testng dp (Parsed doc) toolName envProps = Inr report \<and>
     report_tests report = map (method_test dp) (filter reported (suite_methods suite))"
proof -
  assume "testng_valid doc"
  from testng_valid_parses [OF this, of dp] obtain rootName node suite testCases results where
    doc: "doc = Some (rootName, node)"
    and suite: "first_elem (child node ''suite'') = Some suite"
    and tests: "list_all has_attributes (child_list suite ''test'')"
    and p: "parseTestNGReport dp (Parsed doc) = Inr (testCases, results)"
    by blast
  from parseTestNGReport_first_suite [OF p] doc suite
  have "testCases = map (\<lambda>p. make_testCase dp (the (attr_bag (fst p))) (snd p) (the (attr_bag (snd p))))
                      (filter pushed (suite_methods suite))"
    by auto
  then have tc: "map convertToCTRFTest_testng testCases
                   = map (method_test dp) (filter reported (suite_methods suite))"
    by (simp add: pushed_is_reported [OF tests] method_test_def comp_def)
  have "ctrfReport_testng dp (Parsed doc) toolName envProps
          = Inr (createCTRFReport_testng testCases results toolName (envPropsObj envProps))"
    by (simp add: ctrfReport_testng_def p)
  with doc suite tc show ?thesis
    by (simp add: report_tests_testng)
qed

theorem testng_first_suite_methods_witness:
  "testng_valid mixed_suites \<and>
   (\<exists>report. ctrfReport_testng no_dates (Parsed mixed_suites) None None = Inr report \<and>
             map ctrf_name (report_tests report) = [''T1: a'', ''T1: b''] \<and>
             map ctrf_status (report_tests report) = [Passed, Failed])"
proof -
  have valid: "testng_valid mixed_suites"
    by (simp add: testng_valid_def mixed_suites_def mixed_first_suite_def mixed_test_def
        has_attributes_def child_list_def)
  have methods: "filter reported (suite_methods mixed_first_suite)
                   = [(mixed_test, method_a), (mixed_test, method_b)]"
    by (simp add: mixed_first_suite_def mixed_test_def method_setUp_def method_a_def method_b_def
        suite_methods_def child_list_def reported_def has_attributes_def is_config_def
        opt_attr_def attr_def)
  from testng_first_suite_methods [OF valid, of no_dates None None]
  obtain report where
    r: "ctrfReport_testng no_dates (Parsed mixed_suites) None None = Inr report"
    and t: "report_tests report
              = map (method_test no_dates) (filter reported (suite_methods mixed_first_suite))"
    by (auto simp: mixed_suites_def)
  have names: "map ctrf_name (report_tests report) = [''T1: a'', ''T1: b'']"
    unfolding t methods
    by (simp add: method_test_def make_testCase_def convertToCTRFTest_testng_def attr_def
        or_default_def mixed_test_def method_a_def method_b_def)
  have statuses: "map ctrf_status (report_tests report) = [Passed, Failed]"
    unfolding t methods
    by (simp add: method_test_def make_testCase_def convertToCTRFTest_testng_def attr_def
        or_default_def toLowerCase_PASS toLowerCase_FAIL Let_def mixed_test_def method_a_def
        method_b_def)
  have "\<exists>report. ctrfReport_testng no_dates (Parsed mixed_suites) None None = Inr report \<and>
          map ctrf_name (report_tests report) = [''T1: a'', ''T1: b''] \<and>
          map ctrf_status (report_tests report) = [Passed, Failed]"
    using r names statuses by - (rule exI [of _ report], simp)
  with valid show ?thesis by (rule conjI)
qed

text \<open>
  C4. A JUnit document of the expected shape converts, and whenever the JUnit conversion
  produces a report, its test list has one entry for each \<open>testcase\<close> leaf found under
  the top-level suites at any depth of nested suites, in the order of the walk: the
  number of output tests is the number of leaves, and the entry of a leaf is the
  conversion of that leaf, tagged with the name of its top-level suite.
\<close>

theorem junit_one_test_per_leaf:
  "(junit_well_formed doc \<longrightarrow>
      (\<exists>report. ctrfReport_junit (Parsed doc) toolName envProps = Inr report)) \<and>
   (\<forall>report. ctrfReport_junit (Parsed doc) toolName envProps = Inr report \<longrightarrow>
      length (report_tests report) = length (document_leaves doc) \<and>
      map Inr (report_tests report) = map leaf_test (document_leaves doc))"
proof (intro conjI allI impI)
  assume "junit_well_formed doc"
  then show "\<exists>report. ctrfReport_junit (Parsed doc) toolName envProps = Inr report"
    by (rule junit_well_formed_converts)
next
  fix report
  assume "ctrfReport_junit (Parsed doc) toolName envProps = Inr report"
  then obtain testCases where
    p: "parseJUnitReport (Parsed doc) = Inr testCases"
    and rep: "report = createCTRFReport_junit testCases toolName (envPropsObj envProps)"
    by (auto simp: ctrfReport_junit_def split: sum.splits)
  have "map (map_sum id convertToCTRFTest_junit) (map Inr testCases)
          = map (map_sum id convertToCTRFTest_junit)
              (map (\<lambda>p. extract_testcase (fst p) (snd p)) (document_leaves doc))"
    using parseJUnitReport_leaves [OF p] by simp
  then show eq: "map Inr (report_tests report) = map leaf_test (document_leaves doc)"
    by (simp add: rep report_tests_junit comp_def leaf_test_def)
  show "length (report_tests report) = length (document_leaves doc)"
    using arg_cong [OF eq, of length] by simp
qed

theorem junit_one_test_per_leaf_witness:
  "junit_well_formed nested_suites \<and>
   (\<exists>report. ctrfReport_junit (Parsed nested_suites) None None = Inr report \<and>
             length (report_tests report) = 2 \<and>
             map ctrf_name (report_tests report) = [''Suite A: ok'', ''Suite A: bad''])"
proof -
  have leaves: "document_leaves nested_suites =
      [(Some ''Suite A'', XObj (Some [(''name'', ''ok''), (''time'', ''1.234'')]) None []),
       (Some ''Suite A'', XObj (Some [(''name'', ''bad''), (''time'', ''0'')]) None
          [(''failure'', [XObj (Some [(''message'', ''m'')]) (Some ''boom'') []])])]"
    by (simp add: nested_suites_def document_leaves_def tagged_leaves_def testcase_leaves.simps
        opt_attr_def attr_def)
  have wf: "junit_well_formed nested_suites"
    unfolding junit_well_formed_def leaves
    by (simp add: nested_suites_def has_attributes_def)
  from junit_one_test_per_leaf [of nested_suites None None] wf
  obtain report where r: "ctrfReport_junit (Parsed nested_suites) None None = Inr report"
    by blast
  with junit_one_test_per_leaf [of nested_suites None None]
  have len: "length (report_tests report) = length (document_leaves nested_suites)"
    and tests: "map Inr (report_tests report) = map leaf_test (document_leaves nested_suites)"
    by blast+
  have "map (Inr :: string \<Rightarrow> error + string) (map ctrf_name (report_tests report))
          = map (map_sum id ctrf_name) (map Inr (report_tests report))"
    by (simp add: comp_def)
  also have "\<dots> = map (map_sum id ctrf_name) (map leaf_test (document_leaves nested_suites))"
    by (simp only: tests)
  also have "\<dots> = map Inr [''Suite A: ok'', ''Suite A: bad'']"
    unfolding leaves
    by (simp add: leaf_test_def extract_testcase_def convertToCTRFTest_junit_def template_def attr_def)
  finally have names: "map ctrf_name (report_tests report) = [''Suite A: ok'', ''Suite A: bad'']"
    by (simp only: inj_map_eq_map [OF inj_Inr])
  from wf r len names leaves show ?thesis by auto
qed

text \<open>
  C5. The claim is that the value keeps every \<open>=\<close> after the first. \<open>split\<close> cuts at
  each \<open>=\<close> and only the piece after the first one becomes the value.
\<close>

theorem env_value_cut_at_second_equals:
  "envPropsObj (Some [''URL=http://x?a=1'']) = [(''URL'', Some ''http://x?a'')]"
  by (simp add: envPropsObj_def fromEntries_def)

text \<open>
  C6. The claim is that the JUnit duration is the time multiplied by 1000 and rounded to
  the nearest integer with ties away from zero. As stated it fails on a negative tie:
  for the time \<open>-0.0625\<close> the product is exactly \<open>-62.5\<close>, \<open>Math.round\<close> gives \<open>-62\<close>,
  and rounding away from zero gives \<open>-63\<close>.
\<close>

theorem junit_negative_tie_rounds_up:
  "ctrf_duration (convertToCTRFTest_junit (timed_case (Some ''-0.0625''))) = Fin (- 62) \<and>
   round_half_away (- (625 / 10000) * 1000) = - 63"
  by (simp add: convertToCTRFTest_junit_def timed_case_def junit_ms_neg_sixteenth
      round_half_away_def)

text \<open>
  C6, as amended. The JUnit duration is \<open>Math.round(parseFloat(time) * 1000)\<close>: when
  the product is a finite double \<open>y\<close>, the duration is an integer within one half of
  \<open>y\<close>, and on a tie the larger of the two nearest integers (away from zero only for
  a product that is not negative). The time \<open>1.234\<close> gives 1234 and the time \<open>0\<close>
  gives 0.
\<close>

theorem junit_duration_rounding:
  "(\<forall>y. times1000 (parseFloat (ju_time c)) = Fin y \<longrightarrow>
      (\<exists>n. ctrf_duration (convertToCTRFTest_junit c) = Fin (of_int n) \<and>
           \<bar>of_int n - y\<bar> \<le> 1 / 2 \<and>
           (y - of_int \<lfloor>y\<rfloor> = 1 / 2 \<longrightarrow> n = \<lfloor>y\<rfloor> + 1))) \<and>
   (ju_time c = Some ''1.234'' \<longrightarrow> ctrf_duration (convertToCTRFTest_junit c) = Fin 1234) \<and>
   (ju_time c = Some ''0'' \<longrightarrow> ctrf_duration (convertToCTRFTest_junit c) = Fin 0)"
proof (intro conjI allI impI)
  fix y
  assume y: "times1000 (parseFloat (ju_time c)) = Fin y"
  have d: "ctrf_duration (convertToCTRFTest_junit c) = Fin (of_int \<lfloor>y + 1 / 2\<rfloor>)"
    by (simp add: convertToCTRFTest_junit_def y)
  show "\<exists>n. ctrf_duration (convertToCTRFTest_junit c) = Fin (of_int n) \<and>
           \<bar>of_int n - y\<bar> \<le> 1 / 2 \<and> (y - of_int \<lfloor>y\<rfloor> = 1 / 2 \<longrightarrow> n = \<lfloor>y\<rfloor> + 1)"
    using d Math_round_nearest [of y] Math_round_tie [of y] by blast
next
  assume "ju_time c = Some ''1.234''"
  then show "ctrf_duration (convertToCTRFTest_junit c) = Fin 1234"
    by (simp add: convertToCTRFTest_junit_def junit_ms_1234)
next
  assume "ju_time c = Some ''0''"
  then show "ctrf_duration (convertToCTRFTest_junit c) = Fin 0"
    by (simp add: convertToCTRFTest_junit_def junit_ms_0)
qed

theorem junit_duration_rounding_witness:
  "ctrf_duration (convertToCTRFTest_junit (timed_case (Some ''1.234''))) = Fin 1234 \<and>
   ctrf_duration (convertToCTRFTest_junit (timed_case (Some ''0''))) = Fin 0 \<and>
   times1000 (parseFloat (ju_time (timed_case (Some ''-0.0625'')))) = Fin (- (125 / 2)) \<and>
   (\<exists>n. ctrf_duration (convertToCTRFTest_junit (timed_case (Some ''-0.0625''))) = Fin (of_int n) \<and>
        n = - 62)"
proof -
  have t: "times1000 (parseFloat (ju_time (timed_case (Some ''-0.0625'')))) = Fin (- (125 / 2))"
    by (simp add: timed_case_def junit_product_neg_sixteenth)
  have fl: "\<lfloor>- (125 / 2) :: rat\<rfloor> = - 63"
    by (simp add: floor_unique)
  from junit_duration_rounding [of "timed_case (Some ''-0.0625'')"] t
  obtain n where "ctrf_duration (convertToCTRFTest_junit (timed_case (Some ''-0.0625''))) = Fin (of_int n)"
    and "(- (125 / 2) :: rat) - of_int \<lfloor>- (125 / 2) :: rat\<rfloor> = 1 / 2 \<longrightarrow> n = \<lfloor>- (125 / 2) :: rat\<rfloor> + 1"
    by blast
  then have tie: "\<exists>n. ctrf_duration (convertToCTRFTest_junit (timed_case (Some ''-0.0625''))) = Fin (of_int n) \<and> n = - 62"
    by (simp add: fl)
  show ?thesis
    using junit_duration_rounding [of "timed_case (Some ''1.234'')"]
      junit_duration_rounding [of "timed_case (Some ''0'')"] t tie
    by (simp add: timed_case_def)
qed

text \<open>
  C7. The claim is that every output duration is a non-negative integer, also when the
  source attribute is negative. As stated it fails: a TestNG \<open>duration-ms\<close> of \<open>-5\<close>
  passes through as \<open>-5\<close>.
\<close>

theorem testng_negative_duration_kept:
  "map_sum id (map ctrf_duration \<circ> report_tests)
     (ctrfReport_testng no_dates (Parsed negative_duration) None None) = Inr [Fin (- 5)]"
  by (simp add: negative_duration_def ctrfReport_testng_def parseTestNGReport_def
      report_tests_testng process_test_def process_class_def process_method_def attr_def
      make_testCase_def convertToCTRFTest_testng_def parseInt_neg5)

text \<open>
  C7, as amended. The duration of a TestNG output test is never NaN: it is 0 when the
  \<open>duration-ms\<close> attribute is missing or has no leading integer, and otherwise the value
  \<open>parseInt\<close> reads, an integer whenever it is finite (so non-negative when the
  attribute is). The duration of a JUnit output test is a non-negative integer whenever
  the \<open>time\<close> attribute parses to a finite non-negative number whose product by 1000 is
  finite.
\<close>

theorem duration_defaulted_or_parsed:
  "ctrf_duration (convertToCTRFTest_testng (make_testCase dp test_bag method method_bag)) \<noteq> NaN \<and>
   (parseInt (attr method_bag ''duration-ms'') = NaN \<longrightarrow>
      ctrf_duration (convertToCTRFTest_testng (make_testCase dp test_bag method method_bag)) = Fin 0) \<and>
   (attr method_bag ''duration-ms'' = None \<longrightarrow>
      ctrf_duration (convertToCTRFTest_testng (make_testCase dp test_bag method method_bag)) = Fin 0) \<and>
   (\<forall>x. parseInt (attr method_bag ''duration-ms'') = Fin x \<longrightarrow>
      ctrf_duration (convertToCTRFTest_testng (make_testCase dp test_bag method method_bag)) = Fin x \<and>
      x \<in> \<int>) \<and>
   (\<forall>x y. parseFloat (ju_time c) = Fin x \<and> 0 \<le> x \<and> times1000 (Fin x) = Fin y \<longrightarrow>
      (\<exists>n. 0 \<le> n \<and> ctrf_duration (convertToCTRFTest_junit c) = Fin (of_int n)))"
proof (intro conjI allI impI)
  show "ctrf_duration (convertToCTRFTest_testng (make_testCase dp test_bag method method_bag)) \<noteq> NaN"
    by (cases "parseInt (attr method_bag ''duration-ms'')")
       (simp_all add: convertToCTRFTest_testng_def make_testCase_def Let_def)
next
  assume "parseInt (attr method_bag ''duration-ms'') = NaN"
  then show "ctrf_duration (convertToCTRFTest_testng (make_testCase dp test_bag method method_bag)) = Fin 0"
    by (simp add: convertToCTRFTest_testng_def make_testCase_def Let_def)
next
  assume "attr method_bag ''duration-ms'' = None"
  then show "ctrf_duration (convertToCTRFTest_testng (make_testCase dp test_bag method method_bag)) = Fin 0"
    by (simp add: convertToCTRFTest_testng_def make_testCase_def Let_def parseInt_def)
next
  fix x
  assume p: "parseInt (attr method_bag ''duration-ms'') = Fin x"
  then show "ctrf_duration (convertToCTRFTest_testng (make_testCase dp test_bag method method_bag)) = Fin x"
    by (simp add: convertToCTRFTest_testng_def make_testCase_def Let_def)
  from p show "x \<in> \<int>" by (rule parseInt_finite_int)
next
  fix x y
  assume a: "parseFloat (ju_time c) = Fin x \<and> 0 \<le> x \<and> times1000 (Fin x) = Fin y"
  then have "to_double (x * 1000) = Fin y" and "0 \<le> x * 1000" by simp_all
  then have "0 \<le> y" using to_double_nonneg by blast
  then have "0 \<le> \<lfloor>y + 1 / 2\<rfloor>" by simp
  moreover have "ctrf_duration (convertToCTRFTest_junit c) = Fin (of_int \<lfloor>y + 1 / 2\<rfloor>)"
    using a by (simp add: convertToCTRFTest_junit_def)
  ultimately show "\<exists>n. 0 \<le> n \<and> ctrf_duration (convertToCTRFTest_junit c) = Fin (of_int n)"
    by blast
qed

theorem duration_defaulted_or_parsed_witness:
  "ctrf_duration (convertToCTRFTest_testng
     (make_testCase no_dates [] (XStr []) [(''duration-ms'', ''12'')])) = Fin 12 \<and>
   ctrf_duration (convertToCTRFTest_testng
     (make_testCase no_dates [] (XStr []) [(''name'', ''a'')])) = Fin 0 \<and>
   ctrf_duration (convertToCTRFTest_testng
     (make_testCase no_dates [] (XStr []) [(''duration-ms'', ''soon'')])) = Fin 0 \<and>
   (\<exists>n. 0 \<le> n \<and> ctrf_duration (convertToCTRFTest_junit (timed_case (Some ''1.234''))) = Fin (of_int n))"
proof -
  have p12: "parseInt (attr [(''duration-ms'', ''12'')] ''duration-ms'') = Fin 12"
    by (simp add: attr_def parseInt_12)
  have pnone: "attr [(''name'', ''a'')] ''duration-ms'' = None"
    by (simp add: attr_def)
  have pnan: "parseInt (attr [(''duration-ms'', ''soon'')] ''duration-ms'') = NaN"
    by (simp add: attr_def parseInt_def parse_eval)
  have f1: "parseFloat (ju_time (timed_case (Some ''1.234''))) = Fin (5557441940175192 / 4503599627370496)"
    by (simp add: timed_case_def parseFloat_1234)
  have f2: "(0::rat) \<le> 5557441940175192 / 4503599627370496"
    by simp
  note f = conjI [OF f1 conjI [OF f2 times1000_1234]]
  show ?thesis
    using duration_defaulted_or_parsed [of no_dates "[]" "XStr []" "[(''duration-ms'', ''12'')]" "timed_case (Some ''1.234'')"]
      duration_defaulted_or_parsed [of no_dates "[]" "XStr []" "[(''name'', ''a'')]" "timed_case (Some ''1.234'')"]
      duration_defaulted_or_parsed [of no_dates "[]" "XStr []" "[(''duration-ms'', ''soon'')]" "timed_case (Some ''1.234'')"]
      p12 pnone pnan f
    by blast
qed

text \<open>
  C8. The TestNG mapper sends the raw status \<open>pass\<close> to passed, \<open>fail\<close> to failed,
  \<open>skip\<close> to skipped, and every other raw status string to other.
\<close>

theorem testng_status_mapping:
  "ctrf_status (convertToCTRFTest_testng tc) =
     (if tn_status tc = ''pass'' then Passed
      else if tn_status tc = ''fail'' then Failed
      else if tn_status tc = ''skip'' then Skipped
      else Other)"
  by (simp add: convertToCTRFTest_testng_def Let_def)

text \<open>
  C9. When the parsed document has no \<open>testng-results\<close> root, the TestNG conversion
  rejects with a message that names the missing root element, and the files are left as
  they were: nothing is written.
\<close>

theorem missing_root_rejects:
  "lacks_root doc ''testng-results'' \<Longrightarrow>
   convertTestngToCTRF dp (Parsed doc) outputPath toolName envProps fs =
     (Inl (Error (if doc = None
                  then ''Failed to parse TestNG report: '' @ cannot_read ''null'' ''testng-results''
                  else ''Invalid TestNG report format: missing testng-results'')),
      fs)"
  by (auto simp: lacks_root_def convertTestngToCTRF_def ctrfReport_testng_def parseTestNGReport_def
      split: option.splits)

theorem missing_root_rejects_witness:
  "lacks_root (Some (''testsuites'', XStr [])) ''testng-results'' \<and>
   convertTestngToCTRF no_dates (Parsed (Some (''testsuites'', XStr []))) None None None Map.empty =
     (Inl (Error ''Invalid TestNG report format: missing testng-results''), Map.empty) \<and>
   lacks_root None ''testng-results'' \<and>
   convertTestngToCTRF no_dates (Parsed None) None None None Map.empty =
     (Inl (Error (''Failed to parse TestNG report: '' @ cannot_read ''null'' ''testng-results'')),
      Map.empty)"
  using missing_root_rejects [of "Some (''testsuites'', XStr [])" no_dates None None None Map.empty]
    missing_root_rejects [of None no_dates None None None Map.empty]
  by (simp add: lacks_root_def)

text \<open>
  C10. The claim is that a test case with a \<open>failure\<close> or \<open>error\<close> element carries a
  message and a trace. As stated it fails: an \<open>error\<close> element without text gives
  neither.
\<close>

theorem junit_empty_error_has_no_message:
  "map_sum id (map ctrf_message \<circ> report_tests) (ctrfReport_junit (Parsed empty_error_element) None None)
     = Inr [None]"
  by (simp add: empty_error_element_def ctrfReport_junit_def parseJUnitReport_def
      extract_testcase_def element_text_def attr_def report_tests_junit
      convertToCTRFTest_junit_def failure_or_error_def or_str_def)

text \<open>
  C10, as amended. The message and the trace of a JUnit output test are always the same
  value. When the \<open>failure\<close> element of the test case carries non-empty text, both hold
  that text; when it does not and the \<open>error\<close> element carries non-empty text, both hold
  the text of the \<open>error\<close> element; when the test case has neither element, both are
  absent.
\<close>

theorem junit_message_is_trace:
  "extract_testcase suiteName testCase = Inr c \<Longrightarrow>
   ctrf_trace (convertToCTRFTest_junit c) = ctrf_message (convertToCTRFTest_junit c) \<and>
   (truthy_str (element_text (child testCase ''failure'')) \<longrightarrow>
      ctrf_message (convertToCTRFTest_junit c)
        = map_option XStr (element_text (child testCase ''failure''))) \<and>
   (\<not> truthy_str (element_text (child testCase ''failure'')) \<and>
    truthy_str (element_text (child testCase ''error'')) \<longrightarrow>
      ctrf_message (convertToCTRFTest_junit c)
        = map_option XStr (element_text (child testCase ''error''))) \<and>
   (child testCase ''failure'' = None \<and> child testCase ''error'' = None \<longrightarrow>
      ctrf_message (convertToCTRFTest_junit c) = None)"
  by (auto simp: extract_testcase_def convertToCTRFTest_junit_def failure_or_error_def or_str_def
      element_text_def split: option.splits)

theorem junit_message_is_trace_witness:
  "ctrf_message (convertToCTRFTest_junit
     (projr (extract_testcase None (testcase_with [(''failure'', [XStr ''boom''])]))))
     = Some (XStr ''boom'') \<and>
   ctrf_trace (convertToCTRFTest_junit
     (projr (extract_testcase None (testcase_with [(''failure'', [XStr ''boom''])]))))
     = Some (XStr ''boom'') \<and>
   ctrf_message (convertToCTRFTest_junit
     (projr (extract_testcase None
        (testcase_with [(''error'', [XObj (Some [(''type'', ''E'')]) (Some ''trace'') []])]))))
     = Some (XStr ''trace'') \<and>
   ctrf_message (convertToCTRFTest_junit (projr (extract_testcase None (testcase_with [])))) = None"
proof -
  have h: "extract_testcase None (testcase_with kids)
             = Inr (projr (extract_testcase None (testcase_with kids)))" for kids
    by (simp add: extract_testcase_def testcase_with_def)
  show ?thesis
    using junit_message_is_trace [OF h [of "[(''failure'', [XStr ''boom''])]"]]
      junit_message_is_trace [OF h [of "[(''error'', [XObj (Some [(''type'', ''E'')]) (Some ''trace'') []])]"]]
      junit_message_is_trace [OF h [of "[]"]]
    by (simp add: testcase_with_def element_text_def)
qed

end
